theory Spec2Isabelle
  imports Main
begin

section \<open>Values of the runtime\<close>

text \<open>
  Instants are milliseconds since the epoch: \<^verbatim>\<open>new Date().toISOString()\<close> and the
  timestamp columns of the store are read through \<^verbatim>\<open>new Date(...)\<close> as such a number.
\<close>

type_synonym timestamp = int

text \<open>
  A JSON value as \<^verbatim>\<open>req.json()\<close> and \<^verbatim>\<open>JSON.parse\<close> deliver it. Numbers are integers
  (the outline documents carry none); an object is the list of its own properties in
  insertion order, with distinct keys.
\<close>

datatype json =
    JNull
  | JBool bool
  | JNum int
  | JStr string
  | JArr "json list"
  | JObj "(string \<times> json) list"

text \<open>
  A request body is taken to have the fields of the interface that its handler declares,
  each present or absent (\<open>None\<close> is \<^verbatim>\<open>undefined\<close>); a body of another shape, or one that
  is not JSON, is outside this model. Strings are sequences of 8-bit code units. Handlers
  run one at a time.
\<close>

text \<open>What a handler answers: the preflight text, \<^verbatim>\<open>{error: message}\<close>, or
  \<^verbatim>\<open>{success: true, ...}\<close> with its payload.\<close>

datatype 'a body = Ok_text | Error string | Success 'a

datatype 'a response = Response (status: nat) (body: "'a body")

record 'a http_request =
  http_method :: string
  payload :: 'a

text \<open>\<^verbatim>\<open>!s\<close> for an optional string field: undefined or the empty string.\<close>

definition falsy_str :: "string option \<Rightarrow> bool" where
  "falsy_str s = (case s of None \<Rightarrow> True | Some t \<Rightarrow> t = [])"

text \<open>\<^verbatim>\<open>n || 0\<close> for an optional (or nullable) number.\<close>

definition or_zero :: "int option \<Rightarrow> int" where
  "or_zero n = (case n of None \<Rightarrow> 0 | Some k \<Rightarrow> k)"

text \<open>\<^verbatim>\<open>.single()\<close>: the row when the query has exactly one, no data otherwise.\<close>

definition single :: "'a list \<Rightarrow> 'a option" where
  "single rs = (case rs of [r] \<Rightarrow> Some r | _ \<Rightarrow> None)"

section \<open>The store\<close>

record session_row =
  s_id :: string
  s_clerk_user_id :: string
  s_topic :: string
  s_context :: string
  s_knowledge_level :: string
  s_learning_goals :: string
  s_preferred_duration :: string
  s_current_outline :: json
  s_status :: string
  s_updated_at :: "timestamp option"

text \<open>The table \<^verbatim>\<open>course_conversations\<close> is kept in creation order, which is the order
  \<^verbatim>\<open>.order('created_at', { ascending: true })\<close> reads it in.\<close>

record conversation_row =
  cv_session_id :: string
  cv_message_type :: string
  cv_content :: string

record course_metadata =
  md_session_id :: string
  md_approved_outline :: json
  md_generation_timestamp :: timestamp

text \<open>The owner column of \<^verbatim>\<open>courses\<close> and \<^verbatim>\<open>user_progress\<close> is written as
  \<^verbatim>\<open>clerk_user_id\<close> by generate-final-course and read as \<^verbatim>\<open>user_id\<close> by update-progress;
  it is one column here, the owning user.\<close>

record course_row =
  c_id :: string
  c_owner :: string
  c_title :: json
  c_description :: json
  c_topic :: string
  c_context :: string
  c_knowledge_level :: string
  c_objectives :: "json option list"
  c_total_modules :: nat
  c_status :: string
  c_ai_generated :: bool
  c_metadata :: course_metadata
  c_completed_at :: "timestamp option"

record course_module_row =
  cm_course_id :: string
  cm_title :: "json option"
  cm_description :: "json option"
  cm_content :: string
  cm_order_index :: nat
  cm_exercises :: "string list"
  cm_assessment_questions :: "string list"

record user_progress_row =
  up_user_id :: string
  up_course_id :: string
  up_progress_percentage :: int
  up_completed_modules :: "string list"
  up_time_spent :: "int option"
  up_last_accessed :: "timestamp option"
  up_notes :: string

record module_progress_row =
  mp_user_id :: string
  mp_course_id :: string
  mp_module_id :: string
  mp_completed :: bool
  mp_time_spent :: int
  mp_last_accessed :: timestamp

record db =
  course_generation_sessions :: "session_row list"
  course_conversations :: "conversation_row list"
  courses :: "course_row list"
  course_modules :: "course_module_row list"
  user_progress :: "user_progress_row list"
  module_progress :: "module_progress_row list"

section \<open>update-progress\<close>

record ProgressUpdate =
  course_id :: "string option"
  module_id :: "string option"
  progress_percentage :: "int option"
  completed_modules :: "string list option"
  time_spent :: "int option"
  notes_opt :: "string option"

text \<open>
  What one invocation of update-progress meets outside its own code: the user of the JWT,
  the outcome of each call to the store (a call of the client resolves to an error object,
  it does not throw), the value the store gives \<^verbatim>\<open>last_accessed\<close> on an insert that omits
  it, and the clock at the three places that read it.
\<close>

record progress_env =
  auth_user :: "string option"
  select_progress_error :: bool
  write_progress_error :: "string option"
  upsert_module_error :: bool
  update_course_error :: bool
  default_last_accessed :: "timestamp option"
  now_progress :: timestamp
  now_module :: timestamp
  now_course :: timestamp

definition progress_match :: "string \<Rightarrow> string \<Rightarrow> user_progress_row \<Rightarrow> bool" where
  "progress_match uid cid row = (up_user_id row = uid \<and> up_course_id row = cid)"

text \<open>The select of lines 61-66; its error is not read, so a failed select is no data.\<close>

definition existingProgress :: "progress_env \<Rightarrow> string \<Rightarrow> string \<Rightarrow> db \<Rightarrow> user_progress_row option" where
  "existingProgress env uid cid d =
     (if select_progress_error env then None
      else single (filter (progress_match uid cid) (user_progress d)))"

text \<open>The object given to \<^verbatim>\<open>.update\<close> at lines 74-80, computed from the record that was
  read, as it changes a row.\<close>

definition progress_patch ::
  "progress_env \<Rightarrow> user_progress_row \<Rightarrow> int \<Rightarrow> ProgressUpdate \<Rightarrow> user_progress_row \<Rightarrow> user_progress_row" where
  "progress_patch env e pct r row =
     row\<lparr>up_progress_percentage := max (up_progress_percentage e) pct,
         up_completed_modules :=
           (case completed_modules r of Some ms \<Rightarrow> ms | None \<Rightarrow> up_completed_modules e),
         up_time_spent := Some (or_zero (up_time_spent e) + or_zero (time_spent r)),
         up_last_accessed := Some (now_progress env),
         up_notes := (case notes_opt r of None \<Rightarrow> up_notes e
                      | Some n \<Rightarrow> if n = [] then up_notes e else n)\<rparr>"

text \<open>Lines 68-105: update the existing record or insert a new one. \<open>Inl\<close> is the
  message of the error that is thrown.\<close>

definition store_progress ::
  "progress_env \<Rightarrow> string \<Rightarrow> string \<Rightarrow> int \<Rightarrow> ProgressUpdate \<Rightarrow> db \<Rightarrow> string + (user_progress_row \<times> db)" where
  "store_progress env uid cid pct r d =
     (case existingProgress env uid cid d of
        Some e \<Rightarrow>
          (case write_progress_error env of
             Some msg \<Rightarrow> Inl msg
           | None \<Rightarrow>
               Inr (progress_patch env e pct r e,
                    d\<lparr>user_progress :=
                        map (\<lambda>row. if progress_match uid cid row
                                   then progress_patch env e pct r row else row)
                          (user_progress d)\<rparr>))
      | None \<Rightarrow>
          (case write_progress_error env of
             Some msg \<Rightarrow> Inl msg
           | None \<Rightarrow>
               let row = \<lparr>up_user_id = uid, up_course_id = cid,
                     up_progress_percentage = pct,
                     up_completed_modules = (case completed_modules r of Some ms \<Rightarrow> ms | None \<Rightarrow> []),
                     up_time_spent = Some (or_zero (time_spent r)),
                     up_last_accessed = default_last_accessed env,
                     up_notes = (case notes_opt r of None \<Rightarrow> [] | Some n \<Rightarrow> n)\<rparr>
               in Inr (row, d\<lparr>user_progress := user_progress d @ [row]\<rparr>)))"

text \<open>Modelled from the spec: the key of the table \<^verbatim>\<open>module_progress\<close>, whose schema is not
  in the sources, is (user, course, module).\<close>

definition module_key :: "module_progress_row \<Rightarrow> module_progress_row \<Rightarrow> bool" where
  "module_key a b =
     (mp_user_id a = mp_user_id b \<and> mp_course_id a = mp_course_id b \<and> mp_module_id a = mp_module_id b)"

definition upsert :: "module_progress_row \<Rightarrow> module_progress_row list \<Rightarrow> module_progress_row list" where
  "upsert row rows =
     (if list_ex (module_key row) rows
      then map (\<lambda>x. if module_key row x then row else x) rows
      else rows @ [row])"

text \<open>Lines 107-119. The upsert resolves its conflict on the key of the table; the outcome
  of the call is not read.\<close>

definition upsert_module_progress ::
  "progress_env \<Rightarrow> string \<Rightarrow> string \<Rightarrow> int \<Rightarrow> ProgressUpdate \<Rightarrow> db \<Rightarrow> db" where
  "upsert_module_progress env uid cid pct r d =
     (case module_id r of
        None \<Rightarrow> d
      | Some mid \<Rightarrow>
          if mid = [] \<or> upsert_module_error env then d
          else d\<lparr>module_progress :=
                 upsert \<lparr>mp_user_id = uid, mp_course_id = cid, mp_module_id = mid,
                         mp_completed = (pct \<ge> 100),
                         mp_time_spent = or_zero (time_spent r),
                         mp_last_accessed = now_module env\<rparr>
                   (module_progress d)\<rparr>)"

text \<open>Lines 121-131: the update of the caller's rows of \<^verbatim>\<open>courses\<close> with this id. The
  outcome of the call is not read.\<close>

definition stamp_completed :: "progress_env \<Rightarrow> string \<Rightarrow> string \<Rightarrow> course_row \<Rightarrow> course_row" where
  "stamp_completed env uid cid c =
     (if c_id c = cid \<and> c_owner c = uid
      then c\<lparr>c_completed_at := Some (now_course env), c_status := ''completed''\<rparr> else c)"

definition complete_course :: "progress_env \<Rightarrow> string \<Rightarrow> string \<Rightarrow> int \<Rightarrow> db \<Rightarrow> db" where
  "complete_course env uid cid pct d =
     (if pct \<ge> 100 \<and> \<not> update_course_error env
      then d\<lparr>courses := map (stamp_completed env uid cid) (courses d)\<rparr>
      else d)"

definition update_progress ::
  "progress_env \<Rightarrow> ProgressUpdate http_request \<Rightarrow> db \<Rightarrow> user_progress_row response \<times> db" where
  "update_progress env req d =
     (if http_method req = ''OPTIONS'' then (Response 200 Ok_text, d)
      else case auth_user env of
        None \<Rightarrow> (Response 401 (Error ''Unauthorized''), d)
      | Some uid \<Rightarrow>
          let r = payload req in
          (case progress_percentage r of
             None \<Rightarrow> (Response 400 (Error ''Missing required fields: course_id, progress_percentage''), d)
           | Some pct \<Rightarrow>
               (case course_id r of
                  None \<Rightarrow> (Response 400 (Error ''Missing required fields: course_id, progress_percentage''), d)
                | Some cid \<Rightarrow>
                    if cid = []
                    then (Response 400 (Error ''Missing required fields: course_id, progress_percentage''), d)
                    else
                      (case store_progress env uid cid pct r d of
                         Inl msg \<Rightarrow> (Response 500 (Error msg), d)
                       | Inr (progressData, d1) \<Rightarrow>
                           (Response 200 (Success progressData),
                            complete_course env uid cid pct
                              (upsert_module_progress env uid cid pct r d1))))))"

text \<open>The record of (user, course) as the handler reads it.\<close>

definition progress_of :: "string \<Rightarrow> string \<Rightarrow> db \<Rightarrow> user_progress_row option" where
  "progress_of uid cid d = single (filter (progress_match uid cid) (user_progress d))"

text \<open>A sequence of invocations, each with its own environment.\<close>

fun run_updates :: "(progress_env \<times> ProgressUpdate http_request) list \<Rightarrow> db \<Rightarrow> db" where
  "run_updates [] d = d"
| "run_updates ((env, req) # rest) d = run_updates rest (snd (update_progress env req d))"

text \<open>An invocation that passes the preflight, authentication and validation steps for
  this user, course and percentage, and whose select is answered.\<close>

definition update_for :: "progress_env \<Rightarrow> ProgressUpdate http_request \<Rightarrow> string \<Rightarrow> string \<Rightarrow> int \<Rightarrow> bool" where
  "update_for env req uid cid pct =
     (http_method req \<noteq> ''OPTIONS'' \<and> auth_user env = Some uid \<and> \<not> select_progress_error env
      \<and> course_id (payload req) = Some cid \<and> progress_percentage (payload req) = Some pct)"

text \<open>How a row of \<^verbatim>\<open>courses\<close> may differ after updates: same identity and owner, the
  status as it was or \<open>completed\<close>, and \<open>completed\<close> if it was.\<close>

definition status_kept :: "course_row \<Rightarrow> course_row \<Rightarrow> bool" where
  "status_kept c c' =
     (c_id c' = c_id c \<and> c_owner c' = c_owner c
      \<and> (c_status c' = c_status c \<or> c_status c' = ''completed'')
      \<and> (c_status c = ''completed'' \<longrightarrow> c_status c' = ''completed''))"

subsection \<open>Sample data for update-progress\<close>

definition ex_env :: "timestamp \<Rightarrow> progress_env" where
  "ex_env t = \<lparr>auth_user = Some ''u1'', select_progress_error = False, write_progress_error = None,
     upsert_module_error = False, update_course_error = False, default_last_accessed = Some t,
     now_progress = t, now_module = t, now_course = t\<rparr>"

definition ex_update :: "int \<Rightarrow> int option \<Rightarrow> ProgressUpdate http_request" where
  "ex_update p t = \<lparr>http_method = ''POST'', payload = \<lparr>course_id = Some ''c1'', module_id = None,
     progress_percentage = Some p, completed_modules = None, time_spent = t, notes_opt = None\<rparr>\<rparr>"

definition ex_course :: "string \<Rightarrow> course_row" where
  "ex_course st = \<lparr>c_id = ''c1'', c_owner = ''u1'', c_title = JStr ''T'', c_description = JStr ''D'',
     c_topic = ''t'', c_context = ''x'', c_knowledge_level = ''beginner'', c_objectives = [],
     c_total_modules = 0, c_status = st, c_ai_generated = True,
     c_metadata = \<lparr>md_session_id = ''s1'', md_approved_outline = JObj [], md_generation_timestamp = 0\<rparr>,
     c_completed_at = None\<rparr>"

definition ex_progress :: user_progress_row where
  "ex_progress = \<lparr>up_user_id = ''u1'', up_course_id = ''c1'', up_progress_percentage = 0,
     up_completed_modules = [], up_time_spent = Some 0, up_last_accessed = None, up_notes = []\<rparr>"

definition ex_db :: "string \<Rightarrow> db" where
  "ex_db st = \<lparr>course_generation_sessions = [], course_conversations = [], courses = [ex_course st],
     course_modules = [], user_progress = [ex_progress], module_progress = []\<rparr>"

section \<open>get-user-analytics: calculateLearningStreak\<close>

definition day_ms :: int where
  "day_ms = 1000 * 60 * 60 * 24"

text \<open>\<^verbatim>\<open>setHours(0, 0, 0, 0)\<close>: midnight of the day of an instant in the zone of the runtime,
  taken to be UTC (no zone is set in the sources).\<close>

definition start_of_day :: "int \<Rightarrow> int" where
  "start_of_day t = t - t mod day_ms"

text \<open>\<^verbatim>\<open>new Date(progress.last_accessed)\<close>; \<^verbatim>\<open>new Date(null)\<close> is the epoch.\<close>

definition access_instant :: "timestamp option \<Rightarrow> int" where
  "access_instant la = (case la of None \<Rightarrow> 0 | Some t \<Rightarrow> t)"

definition daysDiff :: "int \<Rightarrow> timestamp option \<Rightarrow> int" where
  "daysDiff today la = (today - start_of_day (access_instant la)) div day_ms"

text \<open>The loop of lines 128-139, with the running counter.\<close>

fun streak_loop :: "int \<Rightarrow> nat \<Rightarrow> timestamp option list \<Rightarrow> nat" where
  "streak_loop today streak [] = streak"
| "streak_loop today streak (la # rest) =
     (if daysDiff today la = int streak then streak_loop today (Suc streak) rest else streak)"

text \<open>\<^verbatim>\<open>.order('last_accessed', { ascending: false })\<close>: latest first, rows without a value
  before all others.\<close>

definition order_desc :: "timestamp option list \<Rightarrow> timestamp option list" where
  "order_desc las =
     filter (\<lambda>la. la = None) las @ map Some (rev (sort (List.map_filter (\<lambda>la. la) las)))"

definition calculateLearningStreak :: "bool \<Rightarrow> timestamp \<Rightarrow> string \<Rightarrow> db \<Rightarrow> nat" where
  "calculateLearningStreak select_error now userId d =
     (if select_error then 0
      else
        let progressData =
              order_desc (map up_last_accessed (filter (\<lambda>r. up_user_id r = userId) (user_progress d)))
        in if progressData = [] then 0
           else streak_loop (start_of_day now) 0 progressData)"

text \<open>
  The streak in the words of the specification: the number of consecutive calendar days,
  counted back from today (day 0, day 1, ...), each with at least one access record, up to
  the first day without one. With n records at most n days can count.
\<close>

definition accessed_on :: "int \<Rightarrow> timestamp option list \<Rightarrow> nat \<Rightarrow> bool" where
  "accessed_on today las k = list_ex (\<lambda>la. daysDiff today la = int k) las"

fun consecutive_days :: "int \<Rightarrow> timestamp option list \<Rightarrow> nat \<Rightarrow> nat \<Rightarrow> nat" where
  "consecutive_days today las k 0 = 0"
| "consecutive_days today las k (Suc n) =
     (if accessed_on today las k then Suc (consecutive_days today las (Suc k) n) else 0)"

definition spec_learning_streak :: "timestamp \<Rightarrow> string \<Rightarrow> db \<Rightarrow> nat" where
  "spec_learning_streak now userId d =
     (let las = map up_last_accessed (filter (\<lambda>r. up_user_id r = userId) (user_progress d))
      in consecutive_days (start_of_day now) las 0 (length las))"

section \<open>JSON values in the handlers\<close>

text \<open>Truthiness, for \<^verbatim>\<open>!v\<close>, \<^verbatim>\<open>v || w\<close> and \<^verbatim>\<open>v && w\<close>; \<open>None\<close> is \<^verbatim>\<open>undefined\<close>.\<close>

fun truthy :: "json \<Rightarrow> bool" where
  "truthy JNull = False"
| "truthy (JBool b) = b"
| "truthy (JNum n) = (n \<noteq> 0)"
| "truthy (JStr s) = (s \<noteq> [])"
| "truthy (JArr xs) = True"
| "truthy (JObj kvs) = True"

definition falsy :: "json option \<Rightarrow> bool" where
  "falsy v = (case v of None \<Rightarrow> True | Some j \<Rightarrow> \<not> truthy j)"

text \<open>A property read \<^verbatim>\<open>v.k\<close> on a value that is not null, for the names that the handlers
  read (\<^verbatim>\<open>title\<close>, \<^verbatim>\<open>description\<close>, \<^verbatim>\<open>modules\<close>): only an object has them.\<close>

fun get_prop :: "json \<Rightarrow> string \<Rightarrow> json option" where
  "get_prop (JObj kvs) k = map_of kvs k"
| "get_prop v k = None"

definition nl :: string where
  "nl = [CHR 0x0A]"

fun join_js :: "string \<Rightarrow> string list \<Rightarrow> string" where
  "join_js sep [] = []"
| "join_js sep [x] = x"
| "join_js sep (x # y # rest) = x @ sep @ join_js sep (y # rest)"

definition unlines_js :: "string list \<Rightarrow> string" where
  "unlines_js ls = join_js nl ls"

text \<open>\<^verbatim>\<open>JSON.stringify(v, null, 2)\<close>.\<close>

fun digits :: "nat \<Rightarrow> string" where
  "digits n = (if n < 10 then [char_of (48 + n)] else digits (n div 10) @ [char_of (48 + n mod 10)])"

declare digits.simps [simp del]

definition show_int :: "int \<Rightarrow> string" where
  "show_int i = (if i < 0 then CHR ''-'' # digits (nat (- i)) else digits (nat i))"

definition hex_digit :: "nat \<Rightarrow> char" where
  "hex_digit n = (if n < 10 then char_of (48 + n) else char_of (87 + n))"

definition quote_char :: "char \<Rightarrow> string" where
  "quote_char c =
     (if c = CHR 0x22 then [CHR 0x5C, CHR 0x22]
      else if c = CHR 0x5C then [CHR 0x5C, CHR 0x5C]
      else if c = CHR 0x08 then [CHR 0x5C, CHR ''b'']
      else if c = CHR 0x0C then [CHR 0x5C, CHR ''f'']
      else if c = CHR 0x0A then [CHR 0x5C, CHR ''n'']
      else if c = CHR 0x0D then [CHR 0x5C, CHR ''r'']
      else if c = CHR 0x09 then [CHR 0x5C, CHR ''t'']
      else if (of_char c :: nat) < 32
        then [CHR 0x5C, CHR ''u'', CHR ''0'', CHR ''0'',
              hex_digit (of_char c div 16), hex_digit (of_char c mod 16)]
      else [c])"

definition quote :: "string \<Rightarrow> string" where
  "quote s = [CHR 0x22] @ concat (map quote_char s) @ [CHR 0x22]"

definition pad :: "nat \<Rightarrow> string" where
  "pad n = replicate n CHR '' ''"

fun stringify_at :: "nat \<Rightarrow> json \<Rightarrow> string" where
  "stringify_at i JNull = ''null''"
| "stringify_at i (JBool b) = (if b then ''true'' else ''false'')"
| "stringify_at i (JNum n) = show_int n"
| "stringify_at i (JStr s) = quote s"
| "stringify_at i (JArr xs) =
     (if xs = [] then ''[]''
      else ''['' @ nl
        @ join_js ('','' @ nl) (map (\<lambda>x. pad (i + 2) @ stringify_at (i + 2) x) xs)
        @ nl @ pad i @ '']'')"
| "stringify_at i (JObj kvs) =
     (if kvs = [] then ''{}''
      else ''{'' @ nl
        @ join_js ('','' @ nl)
            (map (\<lambda>kv. pad (i + 2) @ quote (fst kv) @ '': '' @ stringify_at (i + 2) (snd kv)) kvs)
        @ nl @ pad i @ ''}'')"

definition stringify :: "json \<Rightarrow> string" where
  "stringify v = stringify_at 0 v"

text \<open>
  \<^verbatim>\<open>String.prototype.replace\<close> with a global pattern that is a literal text without groups:
  every occurrence, left to right, is replaced by the expansion of the replacement text, in
  which \<^verbatim>\<open>$$\<close> is a dollar sign, \<^verbatim>\<open>$&\<close> the occurrence, \<^verbatim>\<open>$`\<close> the text before it and \<^verbatim>\<open>$'\<close>
  the text after it.
\<close>

fun GetSubstitution :: "string \<Rightarrow> string \<Rightarrow> string \<Rightarrow> string \<Rightarrow> string" where
  "GetSubstitution matched preceding following [] = []"
| "GetSubstitution matched preceding following [c] = [c]"
| "GetSubstitution matched preceding following (c # e # rest) =
     (if c = CHR ''$'' \<and> e = CHR ''$'' then CHR ''$'' # GetSubstitution matched preceding following rest
      else if c = CHR ''$'' \<and> e = CHR ''&'' then matched @ GetSubstitution matched preceding following rest
      else if c = CHR ''$'' \<and> e = CHR 0x60 then preceding @ GetSubstitution matched preceding following rest
      else if c = CHR ''$'' \<and> e = CHR 0x27 then following @ GetSubstitution matched preceding following rest
      else c # GetSubstitution matched preceding following (e # rest))"

fun replace_from :: "string \<Rightarrow> string \<Rightarrow> string \<Rightarrow> string \<Rightarrow> nat \<Rightarrow> string" where
  "replace_from pat rep preceding [] skip = []"
| "replace_from pat rep preceding (c # cs) skip =
     (if skip > 0 then replace_from pat rep (preceding @ [c]) cs (skip - 1)
      else if take (length pat) (c # cs) = pat
        then GetSubstitution pat preceding (drop (length pat) (c # cs)) rep
               @ replace_from pat rep (preceding @ [c]) cs (length pat - 1)
      else c # replace_from pat rep (preceding @ [c]) cs 0)"

definition replace_all :: "string \<Rightarrow> string \<Rightarrow> string \<Rightarrow> string" where
  "replace_all pat rep s = replace_from pat rep [] s 0"

section \<open>The model provider\<close>

text \<open>
  The answer to the one \<^verbatim>\<open>fetch\<close> of an invocation: the call or the reading of its body
  throws (with a message), the status is not ok (with its status text), or the body carries
  \<^verbatim>\<open>choices[0].message.content\<close>.
\<close>

datatype provider_reply = Rejects string | NotOk string | Completion string

record provider_call =
  pc_system :: string
  pc_user :: string
  pc_max_tokens :: nat

text \<open>\<^verbatim>\<open>JSON.parse\<close> is the runtime's: a parameter \<open>JSON_parse\<close> of the handlers, giving the
  value or the message of the SyntaxError.

  The block that reads the model's text as JSON, the same in generate-course-outline
  (lines 320-334) and edit-course-outline (lines 123-137). The regular expression of the
  fallback is an opening brace, any characters as many as possible, a closing brace: its
  match is the text from the first opening brace to the last closing brace after it.\<close>

definition jsonMatch :: "string \<Rightarrow> string option" where
  "jsonMatch content =
     (let rest = dropWhile (\<lambda>c. c \<noteq> CHR ''{'') content;
          m = rev (dropWhile (\<lambda>c. c \<noteq> CHR ''}'') (rev rest))
      in if m = [] then None else Some m)"

definition parse_ai_response :: "(string \<Rightarrow> string + json) \<Rightarrow> string \<Rightarrow> string + json" where
  "parse_ai_response JSON_parse content =
     (case JSON_parse content of
        Inr v \<Rightarrow> Inr v
      | Inl parseError \<Rightarrow>
          (case jsonMatch content of
             Some m \<Rightarrow> JSON_parse m
           | None \<Rightarrow> Inl ''Failed to parse AI response as JSON''))"

text \<open>The extraction in the words of the specification: the first span of the text that
  starts at an opening brace and ends at the closing brace that balances it.\<close>

fun balanced_rest :: "nat \<Rightarrow> string \<Rightarrow> string option" where
  "balanced_rest depth [] = None"
| "balanced_rest depth (c # cs) =
     (if c = CHR ''}'' \<and> depth = 0 then Some [c]
      else map_option ((#) c)
             (balanced_rest (if c = CHR ''{'' then Suc depth
                             else if c = CHR ''}'' then depth - 1 else depth) cs))"

fun first_balanced_span :: "string \<Rightarrow> string option" where
  "first_balanced_span [] = None"
| "first_balanced_span (c # cs) =
     (if c = CHR ''{''
      then (case balanced_rest 0 cs of
              Some m \<Rightarrow> Some (c # m)
            | None \<Rightarrow> first_balanced_span cs)
      else first_balanced_span cs)"

definition spec_parse_ai_response :: "(string \<Rightarrow> string + json) \<Rightarrow> string \<Rightarrow> string + json" where
  "spec_parse_ai_response JSON_parse content =
     (case JSON_parse content of
        Inr v \<Rightarrow> Inr v
      | Inl parseError \<Rightarrow>
          (case first_balanced_span content of
             Some m \<Rightarrow> JSON_parse m
           | None \<Rightarrow> Inl ''Failed to parse AI response as JSON''))"

text \<open>The lookup of the session of the caller, the same in edit-course-outline
  (lines 41-53) and generate-final-course (lines 104-116).\<close>

definition find_session :: "bool \<Rightarrow> string \<Rightarrow> string \<Rightarrow> db \<Rightarrow> session_row option" where
  "find_session select_error sid uid d =
     (if select_error then None
      else single (filter (\<lambda>s. s_id s = sid \<and> s_clerk_user_id s = uid) (course_generation_sessions d)))"

section \<open>edit-course-outline\<close>

record EditRequest =
  session_id :: "string option"
  user_message :: "string option"
  current_outline :: "json option"
  clerk_user_id :: "string option"

text \<open>What one invocation meets outside its own code: the outcome of each call to the
  store, the answer of the provider, and the clock.\<close>

record edit_env =
  select_session_error :: bool
  select_conversations_error :: bool
  edit_provider :: provider_reply
  insert_conversations_error :: bool
  update_session_error :: bool
  now_session :: timestamp

text \<open>Lines 55-68.\<close>

definition conversationContext :: "conversation_row list option \<Rightarrow> string" where
  "conversationContext conversations =
     (case conversations of
        None \<Rightarrow> []
      | Some convs \<Rightarrow>
          if length convs > 0
          then join_js (nl @ nl)
                 (map (\<lambda>conv. (if cv_message_type conv = ''user'' then ''User'' else ''Assistant'')
                               @ '': '' @ cv_content conv) convs)
          else [])"

text \<open>Lines 70-91. The outline that the template embeds is the second argument; the handler
  gives it the \<^verbatim>\<open>current_outline\<close> of the request body.\<close>

definition editPrompt :: "session_row \<Rightarrow> json \<Rightarrow> string \<Rightarrow> string \<Rightarrow> string" where
  "editPrompt session outline history message =
     ''You are helping a user refine their course outline. Here's the context:'' @ nl
     @ nl
     @ ''ORIGINAL COURSE REQUEST:'' @ nl
     @ ''- Topic: '' @ s_topic session @ nl
     @ ''- Context: '' @ s_context session @ nl
     @ ''- Knowledge Level: '' @ s_knowledge_level session @ nl
     @ ''- Learning Goals: '' @ s_learning_goals session @ nl
     @ ''- Preferred Duration: '' @ s_preferred_duration session @ nl
     @ nl
     @ ''CURRENT COURSE OUTLINE:'' @ nl
     @ stringify outline @ nl
     @ nl
     @ ''CONVERSATION HISTORY:'' @ nl
     @ history @ nl
     @ nl
     @ ''USER'S NEW REQUEST:'' @ nl
     @ message @ nl
     @ nl
     @ ''Please update the course outline based on the user's request. Maintain the same JSON structure as the current outline, but modify the content according to their feedback. If they want to add modules, remove modules, change the focus, or adjust the difficulty, please make those changes while keeping the overall structure coherent.'' @ nl
     @ nl
     @ ''Return the updated outline as a JSON object with the same structure as the current outline.''"

definition edit_call :: "string \<Rightarrow> provider_call" where
  "edit_call prompt =
     \<lparr>pc_system = ''You are an expert educational course designer. Help users refine their course outlines based on their feedback. Always respond with valid JSON in the same format as the input outline.'',
      pc_user = prompt, pc_max_tokens = 4000\<rparr>"

text \<open>Lines 139-162: the two conversation rows in one insert, then the update of the
  session. Neither outcome is read.\<close>

definition save_edit :: "edit_env \<Rightarrow> string \<Rightarrow> string \<Rightarrow> json \<Rightarrow> db \<Rightarrow> db" where
  "save_edit env sid message updatedOutline d =
     (let d1 = (if insert_conversations_error env then d
                else d\<lparr>course_conversations := course_conversations d @
                  [\<lparr>cv_session_id = sid, cv_message_type = ''user'', cv_content = message\<rparr>,
                   \<lparr>cv_session_id = sid, cv_message_type = ''assistant'',
                    cv_content = ''I've updated your course outline based on your feedback. Here are the key changes I made:''
                      @ nl @ nl @ stringify updatedOutline\<rparr>]\<rparr>)
      in if update_session_error env then d1
         else d1\<lparr>course_generation_sessions :=
                   map (\<lambda>s. if s_id s = sid
                            then s\<lparr>s_current_outline := updatedOutline,
                                   s_updated_at := Some (now_session env)\<rparr>
                            else s)
                     (course_generation_sessions d1)\<rparr>)"

definition edit_course_outline ::
  "(string \<Rightarrow> string + json) \<Rightarrow> edit_env \<Rightarrow> EditRequest http_request \<Rightarrow> db
     \<Rightarrow> json response \<times> db \<times> provider_call list" where
  "edit_course_outline JSON_parse env req d =
     (if http_method req = ''OPTIONS'' then (Response 200 Ok_text, d, [])
      else
        let r = payload req in
        if falsy_str (session_id r) \<or> falsy_str (user_message r) \<or> falsy (current_outline r)
           \<or> falsy_str (clerk_user_id r)
        then (Response 400 (Error ''Missing required fields''), d, [])
        else
          (case (session_id r, user_message r, current_outline r, clerk_user_id r) of
             (Some sid, Some message, Some outline, Some uid) \<Rightarrow>
               (case find_session (select_session_error env) sid uid d of
                  None \<Rightarrow> (Response 404 (Error ''Session not found or unauthorized''), d, [])
                | Some session \<Rightarrow>
                    let conversations =
                          (if select_conversations_error env then None
                           else Some (filter (\<lambda>c. cv_session_id c = sid) (course_conversations d)));
                        call = edit_call
                          (editPrompt session outline (conversationContext conversations) message)
                    in (case edit_provider env of
                          Rejects msg \<Rightarrow> (Response 500 (Error msg), d, [call])
                        | NotOk statusText \<Rightarrow>
                            (Response 500 (Error (''OpenRouter API error: '' @ statusText)), d, [call])
                        | Completion content \<Rightarrow>
                            (case parse_ai_response JSON_parse content of
                               Inl msg \<Rightarrow> (Response 500 (Error msg), d, [call])
                             | Inr updatedOutline \<Rightarrow>
                                 (Response 200 (Success updatedOutline),
                                  save_edit env sid message updatedOutline d, [call]))))
           | _ \<Rightarrow> (Response 400 (Error ''Missing required fields''), d, [])))"

section \<open>generate-course-outline\<close>

record OutlineRequest =
  rq_topic :: "string option"
  rq_context :: "string option"
  rq_knowledge_level :: "string option"
  rq_learning_goals :: "string option"
  rq_preferred_duration :: "string option"
  rq_clerk_user_id :: "string option"

record outline_env =
  outline_provider :: provider_reply
  insert_session_error :: "string option"
  new_session_id :: string

record outline_result =
  or_session_id :: string
  or_outline :: json

text \<open>The template of generate-course-outline, line by line; a character outside ASCII is its
  UTF-8 bytes.\<close>

definition OUTLINE_SYSTEM_PROMPT :: string where
  \<open>OUTLINE_SYSTEM_PROMPT = unlines_js
    [''Research & Adaptive Course Overview Generation'',
     ''Your task is to conduct in-depth, accurate research on a specified topic and propose a structured, learner-centered self-teaching course. The research and proposal must strictly adhere to the following guidelines:'',
     [],
     ''Variables (retain as placeholders):'',
     ''(1) Topic/Subject: {TOPIC}'',
     ''(2) Context & Background: {CONTEXT}'',
     ''(3) Current Knowledge Level of User: {KNOWLEDGE_LEVEL}'',
     ''(4) User's Learning Goals: {LEARNING_GOALS}'',
     ''(5) Preferred Duration: {PREFERRED_DURATION}'',
     [],
     (''Possible options: 1) 1'' @ [CHR 0xE2, CHR 0x80, CHR 0x93] @ ''2 hours, 2) 3'' @ [CHR 0xE2, CHR 0x80, CHR 0x93] @ ''5 hours, 3) 6'' @ [CHR 0xE2, CHR 0x80, CHR 0x93] @ ''10 hours, 4) 10+ hours''),
     [],
     ''Instructions'',
     ''Research Approach'',
     [],
     ''Search for comprehensive, up-to-date, and accurate information on {TOPIC}, prioritizing academically reputable, trusted, and authoritative sources that fit {CONTEXT}.'',
     [],
     ''Favor primary sources, recent peer-reviewed studies, and educational websites.'',
     [],
     ''Document all sources clearly for fact verification.'',
     [],
     ''User Adaptation'',
     [],
     ''Adapt the depth, detail, and terminology of all course content to suit {KNOWLEDGE_LEVEL}.'',
     [],
     ''Focus material and module selection to support {LEARNING_GOALS}.'',
     [],
     ''Use {PREFERRED_DURATION} as a constraint to determine the scope and depth of coverage, ensuring the content fits the allotted timeframe while maximizing relevance.'',
     [],
     ''Course Overview/Proposal (Step 1)'',
     [],
     ''Design a proposed overview of the self-teaching course, outlining its structure before generating the full content.'',
     [],
     ''The overview/proposal must include:'',
     [],
     ''Working course title and high-level description.'',
     [],
     ''A modular breakdown (e.g., sections, lessons, or topics/modules to be covered).'',
     [],
     ''For each module: a brief summary, rationale for inclusion, and how it helps fulfill {LEARNING_GOALS}.'',
     [],
     ''Clear alignment of depth/detail to fit {PREFERRED_DURATION}.'',
     [],
     ''Clear statement that this is a review phase for the user to request changes before course creation.'',
     [],
     ''Present the proposed structure as a list or table for easy review.'',
     [],
     ''Transparency & Trust'',
     [],
     ''Clearly cite all key sources found in the overview.'',
     [],
     ''Note any significant gaps, open questions, or areas where source confidence is limited.'',
     [],
     ''IMPORTANT: Return your response as a JSON object with this exact structure:'',
     ''{'',
     ''  "title": "Course Title",'',
     ''  "description": "High-level course description",'',
     ''  "duration": "Expected duration",'',
     ''  "modules": ['',
     ''    {'',
     ''      "title": "Module Title",'',
     ''      "description": "Module description",'',
     ''      "rationale": "Why this module is included and how it helps fulfill learning goals",'',
     ''      "topics": ["Topic 1", "Topic 2", "Topic 3"]'',
     ''    }'',
     ''  ],'',
     ''  "sources": ["Source 1", "Source 2", "Source 3"],'',
     ''  "notes": "Any gaps, limitations, or areas of uncertainty",'',
     ''  "review_message": "Clear statement that this is a review phase for the user to request changes before course creation"'',
     ''}'']\<close>

text \<open>Lines 282-288 of the handler: the five substitutions, one after the other.\<close>

definition outlinePrompt :: "string \<Rightarrow> string \<Rightarrow> string \<Rightarrow> string \<Rightarrow> string \<Rightarrow> string" where
  "outlinePrompt topic context knowledge_level learning_goals preferred_duration =
     replace_all ''{PREFERRED_DURATION}'' preferred_duration
       (replace_all ''{LEARNING_GOALS}'' learning_goals
         (replace_all ''{KNOWLEDGE_LEVEL}'' knowledge_level
           (replace_all ''{CONTEXT}'' context
             (replace_all ''{TOPIC}'' topic OUTLINE_SYSTEM_PROMPT))))"

definition outline_call :: "string \<Rightarrow> provider_call" where
  "outline_call prompt =
     \<lparr>pc_system = ''You are an expert educational researcher and course designer. Generate comprehensive, well-researched course outlines. Always respond with valid JSON in the exact format requested.'',
      pc_user = prompt, pc_max_tokens = 4000\<rparr>"

definition generate_course_outline ::
  "(string \<Rightarrow> string + json) \<Rightarrow> outline_env \<Rightarrow> OutlineRequest http_request \<Rightarrow> db
     \<Rightarrow> outline_result response \<times> db \<times> provider_call list" where
  "generate_course_outline JSON_parse env req d =
     (if http_method req = ''OPTIONS'' then (Response 200 Ok_text, d, [])
      else
        let r = payload req in
        (case (rq_topic r, rq_context r, rq_knowledge_level r, rq_learning_goals r,
               rq_preferred_duration r, rq_clerk_user_id r) of
           (Some topic, Some context, Some knowledge_level, Some learning_goals,
            Some preferred_duration, Some uid) \<Rightarrow>
             if topic = [] \<or> context = [] \<or> knowledge_level = [] \<or> learning_goals = []
                \<or> preferred_duration = [] \<or> uid = []
             then (Response 400 (Error ''Missing required fields''), d, [])
             else
               let call = outline_call
                     (outlinePrompt topic context knowledge_level learning_goals preferred_duration)
               in (case outline_provider env of
                     Rejects msg \<Rightarrow> (Response 500 (Error msg), d, [call])
                   | NotOk statusText \<Rightarrow>
                       (Response 500 (Error (''OpenRouter API error: '' @ statusText)), d, [call])
                   | Completion content \<Rightarrow>
                       (case parse_ai_response JSON_parse content of
                          Inl msg \<Rightarrow> (Response 500 (Error msg), d, [call])
                        | Inr courseOutline \<Rightarrow>
                            (case insert_session_error env of
                               Some msg \<Rightarrow>
                                 (Response 500 (Error (''Database error: '' @ msg)), d, [call])
                             | None \<Rightarrow>
                                 (Response 200 (Success \<lparr>or_session_id = new_session_id env,
                                                         or_outline = courseOutline\<rparr>),
                                  d\<lparr>course_generation_sessions := course_generation_sessions d @
                                     [\<lparr>s_id = new_session_id env, s_clerk_user_id = uid,
                                       s_topic = topic, s_context = context,
                                       s_knowledge_level = knowledge_level,
                                       s_learning_goals = learning_goals,
                                       s_preferred_duration = preferred_duration,
                                       s_current_outline = courseOutline,
                                       s_status = ''outline_review'',
                                       s_updated_at = None\<rparr>]\<rparr>,
                                  [call]))))
         | _ \<Rightarrow> (Response 400 (Error ''Missing required fields''), d, [])))"

section \<open>generate-final-course\<close>

record FinalCourseRequest =
  final_session_id :: "string option"
  approved_outline :: "json option"
  final_clerk_user_id :: "string option"

record final_env =
  final_select_session_error :: bool
  final_provider :: provider_reply
  insert_course_error :: "string option"
  new_course_id :: string
  insert_modules_error :: bool
  insert_progress_error :: bool
  final_update_session_error :: bool
  final_default_last_accessed :: "timestamp option"
  now_generation :: timestamp
  now_session_completed :: timestamp

record course_result =
  cr_id :: string
  cr_title :: json
  cr_description :: json
  cr_content :: string
  cr_modules :: json

text \<open>The template of generate-final-course, lines 16-78, line by line.\<close>

definition FINAL_COURSE_SYSTEM_PROMPT :: string where
  \<open>FINAL_COURSE_SYSTEM_PROMPT = unlines_js
    [''Full Self-Teaching Course Generation'',
     ''Your task is to generate a fully detailed self-teaching course based on the approved course proposal and the following user requirements and constraints.'',
     [],
     ''Variables (retain placeholders):'',
     ''(1) Topic/Subject: {TOPIC}'',
     ''(2) Context & Background: {CONTEXT}'',
     ''(3) Current Knowledge Level of User: {KNOWLEDGE_LEVEL}'',
     ''(4) User's Learning Goals: {LEARNING_GOALS}'',
     ''(5) Preferred Duration: {PREFERRED_DURATION}'',
     ''(6) Approved Course Outline: {COURSE_OUTLINE}'',
     [],
     ''Instructions'',
     ''Strict Adherence to Proposal'',
     [],
     ''Use the provided {COURSE_OUTLINE} as the structure for the course.'',
     [],
     ''Maintain the agreed number of modules, order, and depth as specified in the outline.'',
     [],
     ''Only make minor adjustments (e.g., sequencing, examples) if absolutely necessary for logical flow; otherwise, request clarification.'',
     [],
     ''Content Creation'',
     [],
     ''For each module and lesson, generate:'',
     [],
     ''A clear, descriptive title.'',
     [],
     ''Concise learning objectives/outcomes aligned with {LEARNING_GOALS} and {KNOWLEDGE_LEVEL}.'',
     [],
     ''Detailed explanations, structured logically and written accessibly for the user's background.'',
     [],
     ''Diverse instructional methods and learning styles (e.g., concise readings, hands-on or practical tasks, relevant multimedia suggestions, interactive exercises, discussion prompts, or quizzes), as appropriate per section.'',
     [],
     ''Real-world examples, analogies, or case studies where relevant.'',
     [],
     ''At least one suggested assessment or self-evaluation activity per lesson/module.'',
     [],
     ''End-of-lesson summary or key takeaway points.'',
     [],
     ''Adjust the quantity and depth of content to fit {PREFERRED_DURATION}, balancing comprehensiveness with efficiency.'',
     [],
     ''Give actionable study and progression advice (e.g., recommended pace, optional deeper learning).'',
     [],
     ''References and Transparency'',
     [],
     ''Cite all sources clearly at the end of each lesson and in a consolidated reference list at the end of the course.'',
     [],
     ''Only use reputable, authoritative, and/or peer-reviewed sources.'',
     [],
     ''Explicitly note any limitations, open questions, or areas of uncertainty.'',
     [],
     ''Output Formatting'',
     [],
     ''Present the course as a clear, hierarchical outline of modules and lessons.'',
     [],
     ''Use bullet points, numbered lists, tables, or clear sections as needed for readability.'',
     [],
     ''Include an introductory section summarizing the overall course aim, prerequisites (if any), and instructions for the learner.'',
     [],
     ''Responsiveness to User Needs'',
     [],
     ''Keep all language and instructional detail directly matched to {KNOWLEDGE_LEVEL} and {LEARNING_GOALS}.'',
     [],
     ''Ensure tone and examples are appropriate for the user profile.'']\<close>
text \<open>Lines 118-125: the six substitutions, one after the other.\<close>

definition finalPrompt :: "session_row \<Rightarrow> json \<Rightarrow> string" where
  "finalPrompt session outline =
     replace_all ''{COURSE_OUTLINE}'' (stringify outline)
       (replace_all ''{PREFERRED_DURATION}'' (s_preferred_duration session)
         (replace_all ''{LEARNING_GOALS}'' (s_learning_goals session)
           (replace_all ''{KNOWLEDGE_LEVEL}'' (s_knowledge_level session)
             (replace_all ''{CONTEXT}'' (s_context session)
               (replace_all ''{TOPIC}'' (s_topic session) FINAL_COURSE_SYSTEM_PROMPT)))))"

definition final_call :: "string \<Rightarrow> provider_call" where
  "final_call prompt =
     \<lparr>pc_system = ''You are an expert educational content creator. Generate comprehensive, detailed course content based on approved outlines. Create engaging, practical learning materials with clear structure and actionable content.'',
      pc_user = prompt, pc_max_tokens = 8000\<rparr>"

text \<open>\<^verbatim>\<open>v || w\<close> on JSON values.\<close>

definition or_else :: "json option \<Rightarrow> json \<Rightarrow> json" where
  "or_else v w = (case v of None \<Rightarrow> w | Some j \<Rightarrow> if truthy j then j else w)"

text \<open>\<^verbatim>\<open>approved_outline.modules?.map((m) => m.title) || []\<close> of line 170. The optional call
  stops at a missing or null \<^verbatim>\<open>modules\<close>; any other value that is not an array has no
  \<^verbatim>\<open>map\<close>, and reading \<^verbatim>\<open>title\<close> of a null element throws: \<open>Inl\<close> is the message of the
  TypeError (the wording of the engine).\<close>

definition module_titles :: "json option \<Rightarrow> string + json option list" where
  "module_titles modules =
     (case modules of
        None \<Rightarrow> Inr []
      | Some JNull \<Rightarrow> Inr []
      | Some (JArr ms) \<Rightarrow>
          if JNull \<in> set ms then Inl ''Cannot read properties of null (reading 'title')''
          else Inr (map (\<lambda>m. get_prop m ''title'') ms)
      | Some other \<Rightarrow> Inl ''approved_outline.modules?.map is not a function'')"

text \<open>\<^verbatim>\<open>approved_outline.modules?.length || 0\<close> of line 171.\<close>

definition modules_length :: "json option \<Rightarrow> nat" where
  "modules_length modules =
     (case modules of
        Some (JArr ms) \<Rightarrow> length ms
      | Some (JStr s) \<Rightarrow> length s
      | _ \<Rightarrow> 0)"

text \<open>The object given to the insert of lines 161-181.\<close>

definition course_values ::
  "final_env \<Rightarrow> session_row \<Rightarrow> string \<Rightarrow> string \<Rightarrow> json \<Rightarrow> string + course_row" where
  "course_values env session sid uid outline =
     (case module_titles (get_prop outline ''modules'') of
        Inl msg \<Rightarrow> Inl msg
      | Inr objectives \<Rightarrow>
          Inr \<lparr>c_id = new_course_id env,
               c_owner = uid,
               c_title = or_else (get_prop outline ''title'') (JStr (s_topic session)),
               c_description = or_else (get_prop outline ''description'')
                                 (JStr (''A comprehensive course on '' @ s_topic session)),
               c_topic = s_topic session,
               c_context = s_context session,
               c_knowledge_level = s_knowledge_level session,
               c_objectives = objectives,
               c_total_modules = modules_length (get_prop outline ''modules''),
               c_status = ''active'',
               c_ai_generated = True,
               c_metadata = \<lparr>md_session_id = sid, md_approved_outline = outline,
                              md_generation_timestamp = now_generation env\<rparr>,
               c_completed_at = None\<rparr>)"

text \<open>Lines 187-206: one row per module of the outline, in its order, numbered from 1. An
  error of the insert is logged and the handler goes on.\<close>

definition module_rows :: "string \<Rightarrow> string \<Rightarrow> json list \<Rightarrow> course_module_row list" where
  "module_rows cid courseContent ms =
     map (\<lambda>(index, m).
            \<lparr>cm_course_id = cid, cm_title = get_prop m ''title'', cm_description = get_prop m ''description'',
             cm_content = courseContent, cm_order_index = index + 1,
             cm_exercises = [], cm_assessment_questions = []\<rparr>)
       (enumerate 0 ms)"

definition insert_modules :: "final_env \<Rightarrow> string \<Rightarrow> json \<Rightarrow> db \<Rightarrow> db" where
  "insert_modules env courseContent outline d =
     (case get_prop outline ''modules'' of
        Some (JArr ms) \<Rightarrow>
          if insert_modules_error env then d
          else d\<lparr>course_modules := course_modules d @ module_rows (new_course_id env) courseContent ms\<rparr>
      | _ \<Rightarrow> d)"

text \<open>Lines 208-222. An error of the insert is logged and the handler goes on.\<close>

definition insert_initial_progress :: "final_env \<Rightarrow> string \<Rightarrow> db \<Rightarrow> db" where
  "insert_initial_progress env uid d =
     (if insert_progress_error env then d
      else d\<lparr>user_progress := user_progress d @
             [\<lparr>up_user_id = uid, up_course_id = new_course_id env, up_progress_percentage = 0,
               up_completed_modules = [], up_time_spent = Some 0,
               up_last_accessed = final_default_last_accessed env, up_notes = []\<rparr>]\<rparr>)"

text \<open>Lines 224-231. The outcome of the call is not read.\<close>

definition complete_session :: "final_env \<Rightarrow> string \<Rightarrow> db \<Rightarrow> db" where
  "complete_session env sid d =
     (if final_update_session_error env then d
      else d\<lparr>course_generation_sessions :=
               map (\<lambda>s. if s_id s = sid
                        then s\<lparr>s_status := ''completed'', s_updated_at := Some (now_session_completed env)\<rparr>
                        else s)
                 (course_generation_sessions d)\<rparr>)"

text \<open>Lines 160-231 together. \<open>Inl\<close> is the message of the error that is thrown, before
  anything is written.\<close>

definition persist_course ::
  "final_env \<Rightarrow> session_row \<Rightarrow> string \<Rightarrow> string \<Rightarrow> json \<Rightarrow> string \<Rightarrow> db \<Rightarrow> string + (course_row \<times> db)" where
  "persist_course env session sid uid outline courseContent d =
     (case course_values env session sid uid outline of
        Inl msg \<Rightarrow> Inl msg
      | Inr course \<Rightarrow>
          (case insert_course_error env of
             Some msg \<Rightarrow> Inl (''Database error creating course: '' @ msg)
           | None \<Rightarrow>
               Inr (course,
                    complete_session env sid
                      (insert_initial_progress env uid
                        (insert_modules env courseContent outline
                          (d\<lparr>courses := courses d @ [course]\<rparr>))))))"

definition generate_final_course ::
  "final_env \<Rightarrow> FinalCourseRequest http_request \<Rightarrow> db
     \<Rightarrow> course_result response \<times> db \<times> provider_call list" where
  "generate_final_course env req d =
     (if http_method req = ''OPTIONS'' then (Response 200 Ok_text, d, [])
      else
        let r = payload req in
        if falsy_str (final_session_id r) \<or> falsy (approved_outline r)
           \<or> falsy_str (final_clerk_user_id r)
        then (Response 400 (Error ''Missing required fields''), d, [])
        else
          (case (final_session_id r, approved_outline r, final_clerk_user_id r) of
             (Some sid, Some outline, Some uid) \<Rightarrow>
               (case find_session (final_select_session_error env) sid uid d of
                  None \<Rightarrow> (Response 404 (Error ''Session not found or unauthorized''), d, [])
                | Some session \<Rightarrow>
                    let call = final_call (finalPrompt session outline)
                    in (case final_provider env of
                          Rejects msg \<Rightarrow> (Response 500 (Error msg), d, [call])
                        | NotOk statusText \<Rightarrow>
                            (Response 500 (Error (''OpenRouter API error: '' @ statusText)), d, [call])
                        | Completion courseContent \<Rightarrow>
                            (case persist_course env session sid uid outline courseContent d of
                               Inl msg \<Rightarrow> (Response 500 (Error msg), d, [call])
                             | Inr (course, d') \<Rightarrow>
                                 (Response 200
                                    (Success \<lparr>cr_id = c_id course, cr_title = c_title course,
                                              cr_description = c_description course,
                                              cr_content = courseContent,
                                              cr_modules = or_else (get_prop outline ''modules'') (JArr [])\<rparr>),
                                  d', [call]))))
           | _ \<Rightarrow> (Response 400 (Error ''Missing required fields''), d, [])))"

section \<open>Notions used by the properties\<close>

text \<open>The three parts of what a handler that calls the provider returns.\<close>

abbreviation response_of :: "'a \<times> 'b \<times> 'c \<Rightarrow> 'a" where
  "response_of out \<equiv> fst out"

abbreviation db_of :: "'a \<times> 'b \<times> 'c \<Rightarrow> 'b" where
  "db_of out \<equiv> fst (snd out)"

abbreviation calls_of :: "'a \<times> 'b \<times> 'c \<Rightarrow> 'c" where
  "calls_of out \<equiv> snd (snd out)"

text \<open>The store with another outline in the session of this id.\<close>

definition with_stored_outline :: "string \<Rightarrow> json \<Rightarrow> db \<Rightarrow> db" where
  "with_stored_outline sid outline d =
     d\<lparr>course_generation_sessions :=
         map (\<lambda>s. if s_id s = sid then s\<lparr>s_current_outline := outline\<rparr> else s)
           (course_generation_sessions d)\<rparr>"

text \<open>A text occurs in another as a contiguous part.\<close>

fun contains :: "string \<Rightarrow> string \<Rightarrow> bool" where
  "contains [] part = (part = [])"
| "contains (c # cs) part = (take (length part) (c # cs) = part \<or> contains cs part)"

text \<open>A request of edit-course-outline that passes validation, with its fields.\<close>

definition edit_request_of ::
  "EditRequest http_request \<Rightarrow> string \<Rightarrow> string \<Rightarrow> json \<Rightarrow> string \<Rightarrow> bool" where
  "edit_request_of req sid message outline uid =
     (http_method req \<noteq> ''OPTIONS''
      \<and> session_id (payload req) = Some sid \<and> sid \<noteq> []
      \<and> user_message (payload req) = Some message \<and> message \<noteq> []
      \<and> current_outline (payload req) = Some outline \<and> truthy outline
      \<and> clerk_user_id (payload req) = Some uid \<and> uid \<noteq> [])"

text \<open>A request of generate-final-course that passes validation, with its fields.\<close>

definition final_request_of ::
  "FinalCourseRequest http_request \<Rightarrow> string \<Rightarrow> json \<Rightarrow> string \<Rightarrow> bool" where
  "final_request_of req sid outline uid =
     (http_method req \<noteq> ''OPTIONS''
      \<and> final_session_id (payload req) = Some sid \<and> sid \<noteq> []
      \<and> approved_outline (payload req) = Some outline \<and> truthy outline
      \<and> final_clerk_user_id (payload req) = Some uid \<and> uid \<noteq> [])"

text \<open>Every record of the user has a time of access, no two of them fall on the same
  calendar day, and none is later than today.\<close>

definition one_record_per_day :: "timestamp \<Rightarrow> string \<Rightarrow> db \<Rightarrow> bool" where
  "one_record_per_day now userId d =
     (let las = map up_last_accessed (filter (\<lambda>r. up_user_id r = userId) (user_progress d));
          today = start_of_day now
      in None \<notin> set las \<and> distinct (map (daysDiff today) las)
         \<and> (\<forall>la \<in> set las. 0 \<le> daysDiff today la))"

subsection \<open>Sample data for the outline handlers\<close>

definition ex_outline :: "string \<Rightarrow> json" where
  "ex_outline t =
     JObj [(''title'', JStr t),
           (''modules'', JArr [JObj [(''title'', JStr ''Light'')],
                               JObj [(''title'', JStr ''Chlorophyll'')]])]"

definition ex_session :: "json \<Rightarrow> session_row" where
  "ex_session outline =
     \<lparr>s_id = ''s1'', s_clerk_user_id = ''u1'', s_topic = ''Photosynthesis'',
      s_context = ''for a biology exam'', s_knowledge_level = ''beginner'',
      s_learning_goals = ''pass the exam'', s_preferred_duration = ''3-5'',
      s_current_outline = outline, s_status = ''outline_review'', s_updated_at = None\<rparr>"

definition ex_store :: "json \<Rightarrow> db" where
  "ex_store outline =
     \<lparr>course_generation_sessions = [ex_session outline], course_conversations = [], courses = [],
      course_modules = [], user_progress = [], module_progress = []\<rparr>"

text \<open>A parser that, as \<^verbatim>\<open>JSON.parse\<close> does, reads the text \<^verbatim>\<open>{}\<close> as the empty object and
  rejects the other texts of the examples.\<close>

definition ex_parse :: "string \<Rightarrow> string + json" where
  "ex_parse s = (if s = ''{}'' then Inr (JObj []) else Inl ''Unexpected token'')"

definition ex_edit_env :: "string \<Rightarrow> bool \<Rightarrow> edit_env" where
  "ex_edit_env content write_error =
     \<lparr>select_session_error = False, select_conversations_error = False,
      edit_provider = Completion content, insert_conversations_error = write_error,
      update_session_error = write_error, now_session = 5000\<rparr>"

definition ex_edit_request :: "json \<Rightarrow> EditRequest http_request" where
  "ex_edit_request outline =
     \<lparr>http_method = ''POST'',
      payload = \<lparr>session_id = Some ''s1'', user_message = Some ''add a module on chlorophyll'',
                 current_outline = Some outline, clerk_user_id = Some ''u1''\<rparr>\<rparr>"

definition ex_final_env :: "string option \<Rightarrow> bool \<Rightarrow> final_env" where
  "ex_final_env course_error write_error =
     \<lparr>final_select_session_error = False, final_provider = Completion ''Lesson text'',
      insert_course_error = course_error, new_course_id = ''c9'',
      insert_modules_error = write_error, insert_progress_error = write_error,
      final_update_session_error = write_error, final_default_last_accessed = None,
      now_generation = 7000, now_session_completed = 7001\<rparr>"

definition ex_final_request :: "FinalCourseRequest http_request" where
  "ex_final_request =
     \<lparr>http_method = ''POST'',
      payload = \<lparr>final_session_id = Some ''s1'', approved_outline = Some (ex_outline ''Plants''),
                 final_clerk_user_id = Some ''u1''\<rparr>\<rparr>"

subsection \<open>Sample data for the learning streak\<close>

text \<open>Three courses of one user: two opened on the day of instant 1728043200000 (an hour and
  two hours before it), one the day before.\<close>

definition ex_access :: "string \<Rightarrow> timestamp \<Rightarrow> user_progress_row" where
  "ex_access cid t =
     \<lparr>up_user_id = ''u1'', up_course_id = cid, up_progress_percentage = 10,
      up_completed_modules = [], up_time_spent = Some 0, up_last_accessed = Some t, up_notes = []\<rparr>"

definition ex_streak_db :: db where
  "ex_streak_db =
     \<lparr>course_generation_sessions = [], course_conversations = [], courses = [], course_modules = [],
      user_progress = [ex_access ''c1'' 1728039600000, ex_access ''c2'' 1727956800000,
                       ex_access ''c3'' 1728036000000],
      module_progress = []\<rparr>"

definition ex_two_days_db :: db where
  "ex_two_days_db =
     \<lparr>course_generation_sessions = [], course_conversations = [], courses = [], course_modules = [],
      user_progress = [ex_access ''c1'' 1728039600000, ex_access ''c2'' 1727956800000],
      module_progress = []\<rparr>"

section \<open>Properties of update-progress\<close>

lemmas ex_defs = ex_env_def ex_update_def ex_course_def ex_progress_def ex_db_def

lemmas up_defs = update_progress_def store_progress_def existingProgress_def progress_patch_def
  upsert_module_progress_def complete_course_def stamp_completed_def progress_match_def
  single_def or_zero_def progress_of_def update_for_def


lemma user_progress_complete_course [simp]:
  "user_progress (complete_course env uid cid pct d) = user_progress d"
  by (simp add: complete_course_def)

lemma user_progress_upsert_module_progress [simp]:
  "user_progress (upsert_module_progress env uid cid pct r d) = user_progress d"
  by (simp add: upsert_module_progress_def split: option.splits)

lemma courses_upsert_module_progress [simp]:
  "courses (upsert_module_progress env uid cid pct r d) = courses d"
  by (simp add: upsert_module_progress_def split: option.splits)





lemma courses_store_progress:
  "store_progress env uid cid pct r d = Inr (pd, d1) \<Longrightarrow> courses d1 = courses d"
  by (auto simp: store_progress_def Let_def split: option.splits)

lemma courses_update_progress:
  "courses (snd (update_progress env req d)) =
     (case (auth_user env, course_id (payload req), progress_percentage (payload req)) of
        (Some uid, Some cid, Some pct) \<Rightarrow>
           if http_method req \<noteq> ''OPTIONS'' \<and> status (fst (update_progress env req d)) = 200
              \<and> pct \<ge> 100 \<and> \<not> update_course_error env
           then map (stamp_completed env uid cid) (courses d)
           else courses d
      | _ \<Rightarrow> courses d)"
  by (auto simp: update_progress_def Let_def complete_course_def
      courses_store_progress split: option.splits sum.splits prod.splits)



lemma status_kept_refl: "status_kept c c"
  by (simp add: status_kept_def)

lemma status_kept_trans: "status_kept a b \<Longrightarrow> status_kept b c \<Longrightarrow> status_kept a c"
  by (auto simp: status_kept_def)

lemma status_kept_stamp: "status_kept c (stamp_completed env uid cid c)"
  by (simp add: status_kept_def stamp_completed_def)

lemma status_kept_step:
  "list_all2 status_kept (courses d) (courses (snd (update_progress env req d)))"
  by (auto simp: courses_update_progress list_all2_map2 status_kept_refl status_kept_stamp
      intro!: list_all2_refl split: option.splits)

lemma status_kept_run:
  "list_all2 status_kept (courses d) (courses (run_updates steps d))"
proof (induction steps arbitrary: d)
  case Nil
  show ?case by (simp add: list_all2_refl status_kept_refl)
next
  case (Cons step steps)
  obtain env req where step: "step = (env, req)" by (cases step)
  have "list_all2 status_kept (courses d) (courses (snd (update_progress env req d)))"
    by (rule status_kept_step)
  moreover have "list_all2 status_kept (courses (snd (update_progress env req d)))
      (courses (run_updates steps (snd (update_progress env req d))))"
    by (rule Cons.IH)
  ultimately show ?case
    unfolding step by (simp add: list_all2_trans [OF status_kept_trans])
qed



text \<open>
  Claim C5, as the code has it. The handler checks presence only: an authenticated request
  is answered 400 exactly when course_id is missing or empty or progress_percentage is
  absent, and then nothing is written. Every supplied percentage passes, 0 and 100 as well
  as -1 and 101.
\<close>

theorem validation_checks_presence_only:
  assumes "http_method req \<noteq> ''OPTIONS''" and "auth_user env = Some uid"
  shows "(status (fst (update_progress env req d)) = 400)
           = (falsy_str (course_id (payload req)) \<or> progress_percentage (payload req) = None)
       \<and> (status (fst (update_progress env req d)) = 400 \<longrightarrow> snd (update_progress env req d) = d)"
  using assms
  by (auto simp: update_progress_def falsy_str_def Let_def split: option.splits sum.splits prod.splits)

text \<open>A run on the sample data: a request with course identity and the percentage 101 is not
  answered 400.\<close>

theorem validation_checks_presence_only_witness:
  "http_method (ex_update 101 None) \<noteq> ''OPTIONS'' \<and> auth_user (ex_env 1000) = Some ''u1''
   \<and> \<not> falsy_str (course_id (payload (ex_update 101 None)))
   \<and> progress_percentage (payload (ex_update 101 None)) = Some 101
   \<and> status (fst (update_progress (ex_env 1000) (ex_update 101 None) (ex_db ''active''))) \<noteq> 400"
proof -
  have m: "http_method (ex_update 101 None) \<noteq> ''OPTIONS''" and a: "auth_user (ex_env 1000) = Some ''u1''"
    by (simp_all add: ex_defs)
  have c: "\<not> falsy_str (course_id (payload (ex_update 101 None)))"
    and p: "progress_percentage (payload (ex_update 101 None)) = Some 101"
    by (simp_all add: ex_defs falsy_str_def)
  from validation_checks_presence_only [OF m a, of "ex_db ''active''"] c p
  have "status (fst (update_progress (ex_env 1000) (ex_update 101 None) (ex_db ''active''))) \<noteq> 400"
    by simp
  with m a c p show ?thesis by simp
qed

text \<open>Claim C5 as stated fails: 101 and -1 are accepted, and 101 is stored; were the store
  to refuse the value, the answer would be 500, after the read.\<close>

theorem out_of_range_accepted:
  "status (fst (update_progress (ex_env 1000) (ex_update 101 None) (ex_db ''active''))) = 200
   \<and> status (fst (update_progress (ex_env 1000) (ex_update (- 1) None) (ex_db ''active''))) = 200
   \<and> map up_progress_percentage
        (user_progress (snd (update_progress (ex_env 1000) (ex_update 101 None) (ex_db ''active'')))) = [101]
   \<and> status (fst (update_progress ((ex_env 1000)\<lparr>write_progress_error := Some ''rejected''\<rparr>)
        (ex_update 101 None) (ex_db ''active''))) = 500"
  by (simp add: ex_defs up_defs)




text \<open>
  Claim C10. Over any sequence of update-progress invocations, whatever their requests and
  environments, every row of \<^verbatim>\<open>courses\<close> keeps its identity and owner, its status is what it
  was or \<open>completed\<close>, and a row that was \<open>completed\<close> stays \<open>completed\<close>. One invocation
  changes the table only when the incoming progress_percentage is at least 100.
\<close>

theorem completed_stays_completed:
  "list_all2 status_kept (courses d) (courses (run_updates steps d))
   \<and> (courses (snd (update_progress env req d)) \<noteq> courses d \<longrightarrow>
        (\<exists>pct \<ge> 100. progress_percentage (payload req) = Some pct))"
  by (auto simp: status_kept_run courses_update_progress split: option.splits if_splits)

text \<open>A run on the sample data: three updates on a completed course, one of them below 100
  and one at 0, leave it completed; an update at 100 changes an active course.\<close>

theorem completed_stays_completed_witness:
  "c_status (ex_course ''completed'') = ''completed''
   \<and> map c_status (courses (run_updates [(ex_env 1000, ex_update 30 None), (ex_env 2000, ex_update 100 None),
        (ex_env 3000, ex_update 0 None)] (ex_db ''completed''))) = [''completed'']
   \<and> courses (snd (update_progress (ex_env 1000) (ex_update 100 None) (ex_db ''active'')))
        \<noteq> courses (ex_db ''active'')"
proof -
  let ?steps = "[(ex_env 1000, ex_update 30 None), (ex_env 2000, ex_update 100 None),
        (ex_env 3000, ex_update 0 None)]"
  have c: "c_status (ex_course ''completed'') = ''completed''" by (simp add: ex_course_def)
  have n: "courses (snd (update_progress (ex_env 1000) (ex_update 100 None) (ex_db ''active'')))
        \<noteq> courses (ex_db ''active'')"
    by (simp add: ex_defs up_defs)
  from completed_stays_completed [of "ex_db ''completed''" ?steps]
  have "list_all2 status_kept (courses (ex_db ''completed'')) (courses (run_updates ?steps (ex_db ''completed'')))"
    by blast
  then have "map c_status (courses (run_updates ?steps (ex_db ''completed''))) = [''completed'']"
    by (auto simp: ex_db_def list_all2_Cons1 status_kept_def c)
  with c n show ?thesis by blast
qed

section \<open>Properties of calculateLearningStreak\<close>

lemmas streak_defs = calculateLearningStreak_def spec_learning_streak_def order_desc_def
  start_of_day_def day_ms_def daysDiff_def access_instant_def accessed_on_def List.map_filter_def
  ex_streak_db_def ex_access_def

lemma streak_no_records:
  "filter (\<lambda>r. up_user_id r = userId) (user_progress d) = [] \<Longrightarrow>
     calculateLearningStreak e now userId d = 0 \<and> spec_learning_streak now userId d = 0"
  by (simp add: calculateLearningStreak_def spec_learning_streak_def order_desc_def List.map_filter_def)

lemma daysDiff_antimono:
  "t1 \<le> t2 \<Longrightarrow> daysDiff today (Some t2) \<le> daysDiff today (Some t1)"
proof -
  assume le: "t1 \<le> t2"
  have d: "0 < day_ms" by (simp add: day_ms_def)
  have "start_of_day t = (t div day_ms) * day_ms" for t
    by (simp add: start_of_day_def minus_mod_eq_div_mult)
  moreover have "t1 div day_ms \<le> t2 div day_ms"
    using le d by (simp add: zdiv_mono1)
  ultimately have "start_of_day t1 \<le> start_of_day t2"
    using d by (simp add: mult_right_mono)
  then have "today - start_of_day t2 \<le> today - start_of_day t1" by simp
  then show ?thesis
    using d by (simp add: daysDiff_def access_instant_def zdiv_mono1)
qed

lemma streak_loop_sorted:
  assumes "sorted (map (daysDiff today) xs)" and "distinct (map (daysDiff today) xs)"
    and "\<forall>x \<in> set xs. int k \<le> daysDiff today x"
    and "\<forall>j \<ge> k. accessed_on today las j \<longleftrightarrow> int j \<in> daysDiff today ` set xs"
    and "length xs \<le> n"
  shows "streak_loop today k xs = k + consecutive_days today las k n"
  using assms
proof (induction xs arbitrary: k n)
  case Nil
  then have "\<not> accessed_on today las k" by simp
  then show ?case by (cases n) simp_all
next
  case (Cons x xs)
  from Cons.prems(5) obtain n' where n: "n = Suc n'" and n': "length xs \<le> n'"
    by (cases n) simp_all
  show ?case
  proof (cases "daysDiff today x = int k")
    case True
    have acc: "accessed_on today las k"
      using Cons.prems(4) True by (metis imageI list.set_intros(1) order_refl)
    have gt: "\<forall>y \<in> set xs. int (Suc k) \<le> daysDiff today y"
    proof
      fix y assume y: "y \<in> set xs"
      with Cons.prems(1) have "daysDiff today x \<le> daysDiff today y" by simp
      moreover from Cons.prems(2) y have "daysDiff today x \<noteq> daysDiff today y" by auto
      ultimately show "int (Suc k) \<le> daysDiff today y" using True by simp
    qed
    have iff: "\<forall>j \<ge> Suc k. accessed_on today las j \<longleftrightarrow> int j \<in> daysDiff today ` set xs"
    proof (intro allI impI)
      fix j assume j: "Suc k \<le> j"
      then have "accessed_on today las j \<longleftrightarrow> int j \<in> daysDiff today ` set (x # xs)"
        using Cons.prems(4) by simp
      moreover have "int j \<noteq> daysDiff today x" using True j by simp
      ultimately show "accessed_on today las j \<longleftrightarrow> int j \<in> daysDiff today ` set xs" by auto
    qed
    have "streak_loop today (Suc k) xs = Suc k + consecutive_days today las (Suc k) n'"
      using Cons.prems(1,2) by (intro Cons.IH gt iff n') simp_all
    then show ?thesis by (simp add: True n acc)
  next
    case False
    have "int k \<notin> daysDiff today ` set (x # xs)"
    proof
      assume "int k \<in> daysDiff today ` set (x # xs)"
      then obtain y where y: "y \<in> set xs" "daysDiff today y = int k" using False by auto
      with Cons.prems(1) have "daysDiff today x \<le> int k" by auto
      moreover from Cons.prems(3) have "int k \<le> daysDiff today x" by simp
      ultimately show False using False by simp
    qed
    then have "\<not> accessed_on today las k" using Cons.prems(4) by (metis order_refl)
    then show ?thesis by (simp add: False n)
  qed
qed

lemma map_Some_the:
  "None \<notin> set las \<Longrightarrow> map Some (map the las) = las"
proof (induction las)
  case Nil
  show ?case by simp
next
  case (Cons a las)
  from Cons.prems have "a \<noteq> None" by (metis list.set_intros(1))
  then have sa: "Some (the a) = a" by simp
  from Cons have ih: "map Some (map the las) = las" by simp
  have "map Some (map the (a # las)) = Some (the a) # map Some (map the las)"
    by (simp only: list.map)
  also have "\<dots> = a # las"
    by (simp only: sa ih)
  finally show ?case .
qed

lemma order_desc_all_Some:
  assumes "None \<notin> set las"
  shows "order_desc las = map Some (rev (sort (map the las)))"
proof -
  from assms have all: "\<forall>la \<in> set las. la \<noteq> None" by metis
  then have "filter (\<lambda>la. la = None) las = []"
    by (simp add: filter_empty_conv)
  moreover from all have "filter (\<lambda>la. la \<noteq> None) las = las"
    by (simp add: filter_id_conv)
  then have "List.map_filter (\<lambda>la. la) las = map the las"
    by (simp add: List.map_filter_def comp_def)
  ultimately show ?thesis by (simp add: order_desc_def)
qed

lemma set_order_desc:
  assumes "None \<notin> set las"
  shows "set (order_desc las) = set las" and "length (order_desc las) = length las"
proof -
  have "set (order_desc las) = set (map Some (rev (sort (map the las))))"
    by (simp only: order_desc_all_Some [OF assms])
  also have "\<dots> = set (map Some (map the las))"
    by (simp add: image_image)
  also have "\<dots> = set las"
    by (simp only: map_Some_the [OF assms])
  finally show "set (order_desc las) = set las" .
  show "length (order_desc las) = length las"
    by (simp add: order_desc_all_Some [OF assms])
qed

lemma sorted_daysDiff_order_desc:
  assumes "None \<notin> set las"
  shows "sorted (map (daysDiff today) (order_desc las))"
proof -
  have "sorted_wrt (\<lambda>a b. b \<le> a) (rev (sort (map the las)))"
    by (simp add: sorted_wrt_rev)
  then have "sorted_wrt (\<lambda>a b. daysDiff today (Some a) \<le> daysDiff today (Some b)) (rev (sort (map the las)))"
    by (rule sorted_wrt_mono_rel [rotated]) (simp add: daysDiff_antimono)
  then show ?thesis
    by (simp add: order_desc_all_Some [OF assms] sorted_wrt_map comp_def)
qed

lemma distinct_daysDiff_order_desc:
  assumes "None \<notin> set las" and "distinct (map (daysDiff today) las)"
  shows "distinct (map (daysDiff today) (order_desc las))"
proof -
  from assms(2) have d: "distinct las" and i: "inj_on (daysDiff today) (set las)"
    by (simp_all add: distinct_map)
  from d have "distinct (map Some (map the las))"
    by (simp only: map_Some_the [OF assms(1)])
  then have "distinct (map the las)"
    by (simp only: distinct_map [of Some])
  then have "distinct (order_desc las)"
    by (simp add: order_desc_all_Some [OF assms(1)] distinct_map)
  with i show ?thesis
    by (simp add: distinct_map set_order_desc [OF assms(1)])
qed

lemma streak_agrees_one_record_per_day:
  assumes "one_record_per_day now userId d"
  shows "calculateLearningStreak False now userId d = spec_learning_streak now userId d"
proof -
  define las where "las = map up_last_accessed (filter (\<lambda>r. up_user_id r = userId) (user_progress d))"
  define today where "today = start_of_day now"
  from assms have n: "None \<notin> set las" and dist: "distinct (map (daysDiff today) las)"
    and pos: "\<forall>la \<in> set las. 0 \<le> daysDiff today la"
    by (simp_all add: one_record_per_day_def Let_def las_def today_def)
  have acc: "\<forall>j \<ge> 0. accessed_on today las j \<longleftrightarrow> int j \<in> daysDiff today ` set (order_desc las)"
    by (force simp: accessed_on_def list_ex_iff set_order_desc [OF n] image_iff)
  have "streak_loop today 0 (order_desc las) = 0 + consecutive_days today las 0 (length las)"
    by (rule streak_loop_sorted)
       (simp_all add: sorted_daysDiff_order_desc [OF n] distinct_daysDiff_order_desc [OF n dist]
          set_order_desc [OF n] pos acc)
  moreover have "order_desc las = [] \<Longrightarrow> consecutive_days today las 0 (length las) = 0"
    using set_order_desc(2) [OF n] by simp
  ultimately show ?thesis
    by (simp add: calculateLearningStreak_def spec_learning_streak_def Let_def
        las_def [symmetric] today_def [symmetric])
qed

lemma streak_two_days:
  "one_record_per_day 1728043200000 ''u1'' ex_two_days_db
   \<and> calculateLearningStreak False 1728043200000 ''u1'' ex_two_days_db = 2"
  by (simp add: one_record_per_day_def calculateLearningStreak_def order_desc_def start_of_day_def
      day_ms_def daysDiff_def access_instant_def List.map_filter_def ex_two_days_db_def ex_access_def)

text \<open>
  Claim C9. The streak is 0 without access records, as claimed (\<open>streak_no_records\<close>), and
  it is the number of consecutive days with an access, counted back from today, whenever
  no two records of the user fall on the same day (\<open>streak_agrees_one_record_per_day\<close>).
  In general it is not: the loop compares the day of the k-th record with k, so a second
  record of the same day ends it. For a user with two courses opened today and one
  yesterday it returns 1, where today and yesterday both have an access and the claim
  gives 2.
\<close>

theorem streak_stops_at_second_record_of_a_day:
  "calculateLearningStreak False 1728043200000 ''u1'' ex_streak_db = 1
   \<and> spec_learning_streak 1728043200000 ''u1'' ex_streak_db = 2"
  by (simp add: streak_defs numeral_3_eq_3)

section \<open>Properties of the reading of the model's text\<close>

lemma jsonMatch_SomeD:
  assumes "jsonMatch content = Some m"
  shows "\<exists>pre post. content = pre @ m @ post \<and> CHR ''{'' \<notin> set pre \<and> CHR ''}'' \<notin> set post
          \<and> m \<noteq> [] \<and> hd m = CHR ''{'' \<and> last m = CHR ''}''"
proof -
  define rest where "rest = dropWhile (\<lambda>c. c \<noteq> CHR ''{'') content"
  define pre where "pre = takeWhile (\<lambda>c. c \<noteq> CHR ''{'') content"
  define post where "post = rev (takeWhile (\<lambda>c. c \<noteq> CHR ''}'') (rev rest))"
  from assms have m: "m = rev (dropWhile (\<lambda>c. c \<noteq> CHR ''}'') (rev rest))" and ne: "m \<noteq> []"
    by (auto simp: jsonMatch_def Let_def rest_def split: if_splits)
  have c: "content = pre @ rest" by (simp add: pre_def rest_def)
  have r: "rest = m @ post"
    unfolding m post_def by (metis rev_append rev_rev_ident takeWhile_dropWhile_id)
  have p1: "CHR ''{'' \<notin> set pre" unfolding pre_def by (auto dest: set_takeWhileD)
  have p2: "CHR ''}'' \<notin> set post" unfolding post_def by (auto dest: set_takeWhileD)
  from ne have dne: "dropWhile (\<lambda>c. c \<noteq> CHR ''}'') (rev rest) \<noteq> []" by (simp add: m)
  then have "hd (dropWhile (\<lambda>c. c \<noteq> CHR ''}'') (rev rest)) = CHR ''}''"
    using hd_dropWhile [of "\<lambda>c. c \<noteq> CHR ''}''" "rev rest"] by simp
  then have l: "last m = CHR ''}''" using dne by (simp add: m last_rev)
  from ne r have "rest \<noteq> []" by simp
  then have "hd rest = CHR ''{''"
    unfolding rest_def using hd_dropWhile [of "\<lambda>c. c \<noteq> CHR ''{''" content] by simp
  with ne r have h: "hd m = CHR ''{''" by simp
  from c r p1 p2 ne h l show ?thesis by auto
qed

lemma dropWhile_until:
  "a \<notin> set xs \<Longrightarrow> dropWhile (\<lambda>c. c \<noteq> a) (xs @ a # ys) = a # ys"
  by (induction xs) auto

lemma jsonMatch_SomeI:
  assumes "CHR ''{'' \<notin> set pre" and "CHR ''}'' \<notin> set post" and "m \<noteq> []"
    and "hd m = CHR ''{''" and "last m = CHR ''}''"
  shows "jsonMatch (pre @ m @ post) = Some m"
proof -
  from assms(3,4) obtain m' where m': "m = CHR ''{'' # m'" by (cases m) auto
  have 1: "dropWhile (\<lambda>c. c \<noteq> CHR ''{'') (pre @ m @ post) = m @ post"
    using assms(1) by (simp add: m' dropWhile_until)
  from assms(3,5) obtain m'' where m'': "m = m'' @ [CHR ''}'']"
    by (metis append_butlast_last_id)
  have 2: "dropWhile (\<lambda>c. c \<noteq> CHR ''}'') (rev (m @ post)) = rev m"
    using assms(2) dropWhile_until [of "CHR ''}''" "rev post" "rev m''"] by (simp add: m'')
  have "jsonMatch (pre @ m @ post) = (if rev (rev m) = [] then None else Some (rev (rev m)))"
    unfolding jsonMatch_def Let_def 1 2 by (rule refl)
  with assms(3) show ?thesis by simp
qed

lemma edit_course_outline_valid:
  assumes "edit_request_of req sid message outline uid"
  shows "edit_course_outline JSON_parse env req d =
     (case find_session (select_session_error env) sid uid d of
        None \<Rightarrow> (Response 404 (Error ''Session not found or unauthorized''), d, [])
      | Some session \<Rightarrow>
          (case edit_provider env of
             Rejects msg \<Rightarrow> (Response 500 (Error msg), d,
               [edit_call (editPrompt session outline
                  (conversationContext (if select_conversations_error env then None
                     else Some (filter (\<lambda>c. cv_session_id c = sid) (course_conversations d)))) message)])
           | NotOk statusText \<Rightarrow> (Response 500 (Error (''OpenRouter API error: '' @ statusText)), d,
               [edit_call (editPrompt session outline
                  (conversationContext (if select_conversations_error env then None
                     else Some (filter (\<lambda>c. cv_session_id c = sid) (course_conversations d)))) message)])
           | Completion content \<Rightarrow>
               (case parse_ai_response JSON_parse content of
                  Inl msg \<Rightarrow> (Response 500 (Error msg), d,
                    [edit_call (editPrompt session outline
                       (conversationContext (if select_conversations_error env then None
                          else Some (filter (\<lambda>c. cv_session_id c = sid) (course_conversations d)))) message)])
                | Inr updatedOutline \<Rightarrow>
                    (Response 200 (Success updatedOutline),
                     save_edit env sid message updatedOutline d,
                     [edit_call (editPrompt session outline
                       (conversationContext (if select_conversations_error env then None
                          else Some (filter (\<lambda>c. cv_session_id c = sid) (course_conversations d)))) message)]))))"
  using assms
  by (simp add: edit_course_outline_def edit_request_of_def falsy_str_def falsy_def Let_def
      split: option.splits provider_reply.splits sum.splits)

lemma edit_calls_le_1: "length (calls_of (edit_course_outline JSON_parse env req d)) \<le> 1"
  by (simp add: edit_course_outline_def Let_def
      split: option.splits provider_reply.splits sum.splits prod.splits)

lemma edit_parse_failure:
  assumes "edit_provider env = Completion content"
    and "parse_ai_response JSON_parse content = Inl msg"
    and "calls_of (edit_course_outline JSON_parse env req d) \<noteq> []"
  shows "response_of (edit_course_outline JSON_parse env req d) = Response 500 (Error msg)
       \<and> db_of (edit_course_outline JSON_parse env req d) = d
       \<and> length (calls_of (edit_course_outline JSON_parse env req d)) = 1"
  using assms
  by (auto simp: edit_course_outline_def Let_def
      split: option.splits provider_reply.splits sum.splits prod.splits if_splits)

lemma outline_calls_le_1: "length (calls_of (generate_course_outline JSON_parse env req d)) \<le> 1"
  by (simp add: generate_course_outline_def Let_def
      split: option.splits provider_reply.splits sum.splits prod.splits)

lemma outline_parse_failure:
  assumes "outline_provider env = Completion content"
    and "parse_ai_response JSON_parse content = Inl msg"
    and "calls_of (generate_course_outline JSON_parse env req d) \<noteq> []"
  shows "response_of (generate_course_outline JSON_parse env req d) = Response 500 (Error msg)
       \<and> db_of (generate_course_outline JSON_parse env req d) = d
       \<and> length (calls_of (generate_course_outline JSON_parse env req d)) = 1"
  using assms
  by (auto simp: generate_course_outline_def Let_def
      split: option.splits provider_reply.splits sum.splits prod.splits if_splits)

lemmas edit_ex_defs = ex_outline_def ex_session_def ex_store_def ex_parse_def ex_edit_env_def
  ex_edit_request_def

lemmas edit_defs = edit_course_outline_def find_session_def single_def falsy_str_def falsy_def
  parse_ai_response_def jsonMatch_def save_edit_def conversationContext_def

lemma ex_edit_calls:
  "calls_of (edit_course_outline ex_parse (ex_edit_env content w) (ex_edit_request (ex_outline ''B''))
      (ex_store (ex_outline ''A''))) \<noteq> []"
  by (simp add: edit_ex_defs edit_course_outline_def find_session_def single_def falsy_str_def falsy_def
      Let_def split: sum.splits)

text \<open>
  Claim C8, as the code has it. The model's text is first parsed as it is; when that fails,
  the text from its first opening brace to its last closing brace is parsed instead (not
  the first balanced span); when there is no such text the error is
  \<open>Failed to parse AI response as JSON\<close>. In generate-course-outline and in
  edit-course-outline an error of this step is answered 500 with its message, nothing is
  written, and the provider has been called once.
\<close>

theorem model_text_parsed_with_fallback:
  "(JSON_parse content = Inr v \<longrightarrow> parse_ai_response JSON_parse content = Inr v)
   \<and> (JSON_parse content = Inl e \<longrightarrow> jsonMatch content = Some m \<longrightarrow>
        parse_ai_response JSON_parse content = JSON_parse m
        \<and> (\<exists>pre post. content = pre @ m @ post \<and> CHR ''{'' \<notin> set pre \<and> CHR ''}'' \<notin> set post
              \<and> hd m = CHR ''{'' \<and> last m = CHR ''}''))
   \<and> (JSON_parse content = Inl e \<longrightarrow> jsonMatch content = None \<longrightarrow>
        parse_ai_response JSON_parse content = Inl ''Failed to parse AI response as JSON'')
   \<and> (edit_provider eenv = Completion content \<longrightarrow> parse_ai_response JSON_parse content = Inl msg \<longrightarrow>
        calls_of (edit_course_outline JSON_parse eenv ereq d) \<noteq> [] \<longrightarrow>
          response_of (edit_course_outline JSON_parse eenv ereq d) = Response 500 (Error msg)
          \<and> db_of (edit_course_outline JSON_parse eenv ereq d) = d
          \<and> length (calls_of (edit_course_outline JSON_parse eenv ereq d)) = 1)
   \<and> (outline_provider oenv = Completion content \<longrightarrow> parse_ai_response JSON_parse content = Inl msg \<longrightarrow>
        calls_of (generate_course_outline JSON_parse oenv oreq d) \<noteq> [] \<longrightarrow>
          response_of (generate_course_outline JSON_parse oenv oreq d) = Response 500 (Error msg)
          \<and> db_of (generate_course_outline JSON_parse oenv oreq d) = d
          \<and> length (calls_of (generate_course_outline JSON_parse oenv oreq d)) = 1)"
proof (intro conjI impI)
  assume "JSON_parse content = Inr v"
  then show "parse_ai_response JSON_parse content = Inr v"
    by (simp add: parse_ai_response_def)
next
  assume "JSON_parse content = Inl e" and "jsonMatch content = Some m"
  then show "parse_ai_response JSON_parse content = JSON_parse m"
    by (simp add: parse_ai_response_def)
next
  assume "jsonMatch content = Some m"
  from jsonMatch_SomeD [OF this]
  show "\<exists>pre post. content = pre @ m @ post \<and> CHR ''{'' \<notin> set pre \<and> CHR ''}'' \<notin> set post
              \<and> hd m = CHR ''{'' \<and> last m = CHR ''}''"
    by blast
next
  assume "JSON_parse content = Inl e" and "jsonMatch content = None"
  then show "parse_ai_response JSON_parse content = Inl ''Failed to parse AI response as JSON''"
    by (simp add: parse_ai_response_def)
next
  assume a: "edit_provider eenv = Completion content" "parse_ai_response JSON_parse content = Inl msg"
    "calls_of (edit_course_outline JSON_parse eenv ereq d) \<noteq> []"
  from edit_parse_failure [OF a]
  show "response_of (edit_course_outline JSON_parse eenv ereq d) = Response 500 (Error msg)"
    and "db_of (edit_course_outline JSON_parse eenv ereq d) = d"
    and "length (calls_of (edit_course_outline JSON_parse eenv ereq d)) = 1"
    by blast+
next
  assume a: "outline_provider oenv = Completion content" "parse_ai_response JSON_parse content = Inl msg"
    "calls_of (generate_course_outline JSON_parse oenv oreq d) \<noteq> []"
  from outline_parse_failure [OF a]
  show "response_of (generate_course_outline JSON_parse oenv oreq d) = Response 500 (Error msg)"
    and "db_of (generate_course_outline JSON_parse oenv oreq d) = d"
    and "length (calls_of (generate_course_outline JSON_parse oenv oreq d)) = 1"
    by blast+
qed

text \<open>Claim C8 as stated fails: in a text with two objects the extracted span runs to the
  last closing brace and does not parse, where the first balanced span would.\<close>

theorem fallback_is_not_first_balanced_span:
  "jsonMatch ''{} and {}'' = Some ''{} and {}''
   \<and> first_balanced_span ''{} and {}'' = Some ''{}''
   \<and> parse_ai_response ex_parse ''{} and {}'' = Inl ''Unexpected token''
   \<and> spec_parse_ai_response ex_parse ''{} and {}'' = Inr (JObj [])"
  by (simp add: jsonMatch_def parse_ai_response_def spec_parse_ai_response_def ex_parse_def)

text \<open>Runs on the sample data: a text around one object is read through the fallback, and a
  text without braces is answered 500.\<close>

theorem model_text_parsed_with_fallback_witness:
  "ex_parse ''{}'' = Inr (JObj [])
   \<and> ex_parse ''see {} here'' = Inl ''Unexpected token''
   \<and> jsonMatch ''see {} here'' = Some ''{}''
   \<and> parse_ai_response ex_parse ''see {} here'' = Inr (JObj [])
   \<and> jsonMatch ''no json'' = None
   \<and> edit_provider (ex_edit_env ''no json'' False) = Completion ''no json''
   \<and> response_of (edit_course_outline ex_parse (ex_edit_env ''no json'' False)
        (ex_edit_request (ex_outline ''B'')) (ex_store (ex_outline ''A'')))
      = Response 500 (Error ''Failed to parse AI response as JSON'')"
proof -
  have p0: "ex_parse ''{}'' = Inr (JObj [])" by (simp add: ex_parse_def)
  have p1: "ex_parse ''see {} here'' = Inl ''Unexpected token''" by (simp add: ex_parse_def)
  have m1: "jsonMatch ''see {} here'' = Some ''{}''" by (simp add: jsonMatch_def)
  have p2: "ex_parse ''no json'' = Inl ''Unexpected token''" by (simp add: ex_parse_def)
  have m2: "jsonMatch ''no json'' = None" by (simp add: jsonMatch_def)
  have e: "edit_provider (ex_edit_env ''no json'' False) = Completion ''no json''"
    by (simp add: ex_edit_env_def)
  have c: "calls_of (edit_course_outline ex_parse (ex_edit_env ''no json'' False)
      (ex_edit_request (ex_outline ''B'')) (ex_store (ex_outline ''A''))) \<noteq> []"
    by (rule ex_edit_calls)
  note t1 = model_text_parsed_with_fallback [of ex_parse "''see {} here''" "JObj []" "''Unexpected token''" "''{}''"]
  note t2 = model_text_parsed_with_fallback [of ex_parse "''no json''" "JObj []" "''Unexpected token''" "''{}''"
      "ex_edit_env ''no json'' False" "''Failed to parse AI response as JSON''"
      "ex_edit_request (ex_outline ''B'')" "ex_store (ex_outline ''A'')"]
  from t1 p1 m1 p0 have r1: "parse_ai_response ex_parse ''see {} here'' = Inr (JObj [])"
    by simp
  from t2 p2 m2 have f: "parse_ai_response ex_parse ''no json'' = Inl ''Failed to parse AI response as JSON''"
    by blast
  from t2 e f c have r2: "response_of (edit_course_outline ex_parse (ex_edit_env ''no json'' False)
        (ex_edit_request (ex_outline ''B'')) (ex_store (ex_outline ''A'')))
      = Response 500 (Error ''Failed to parse AI response as JSON'')"
    by blast
  from p0 p1 m1 r1 m2 e r2 show ?thesis by blast
qed

section \<open>Properties of edit-course-outline\<close>

lemma filter_session_with_outline:
  "filter (\<lambda>s. s_id s = sid \<and> s_clerk_user_id s = uid)
     (map (\<lambda>s. if s_id s = sid then s\<lparr>s_current_outline := stored\<rparr> else s) rows)
   = map (\<lambda>s. s\<lparr>s_current_outline := stored\<rparr>) (filter (\<lambda>s. s_id s = sid \<and> s_clerk_user_id s = uid) rows)"
  by (induction rows) auto

lemma single_map: "single (map f rows) = map_option f (single rows)"
  by (cases rows rule: list.exhaust [case_product list.exhaust]) (auto simp: single_def split: list.splits)

lemma find_session_with_stored_outline:
  "find_session e sid uid (with_stored_outline sid stored d)
     = map_option (\<lambda>s. s\<lparr>s_current_outline := stored\<rparr>) (find_session e sid uid d)"
  by (simp add: find_session_def with_stored_outline_def filter_session_with_outline single_map)

lemma editPrompt_stored_outline:
  "editPrompt (session\<lparr>s_current_outline := stored\<rparr>) outline context message
     = editPrompt session outline context message"
  by (simp add: editPrompt_def)

lemma course_conversations_with_stored_outline:
  "course_conversations (with_stored_outline sid stored d) = course_conversations d"
  by (simp add: with_stored_outline_def)

lemma edit_prompt_sent:
  assumes "edit_request_of req sid message outline uid"
    and "find_session (select_session_error env) sid uid d = Some session"
  shows "map pc_user (calls_of (edit_course_outline JSON_parse env req (with_stored_outline sid stored d)))
     = [editPrompt session outline
          (conversationContext (if select_conversations_error env then None
             else Some (filter (\<lambda>c. cv_session_id c = sid) (course_conversations d)))) message]"
  by (simp add: edit_course_outline_valid [OF assms(1)] find_session_with_stored_outline assms(2)
      editPrompt_stored_outline course_conversations_with_stored_outline edit_call_def
      split: provider_reply.splits sum.splits)

lemma contains_self_prefix: "contains (part @ ys) part"
proof (cases "part @ ys")
  case Nil
  then show ?thesis by simp
next
  case (Cons c cs)
  have "take (length part) (part @ ys) = part" by simp
  then show ?thesis unfolding Cons by simp
qed

lemma contains_skip: "contains ys part \<Longrightarrow> contains (xs @ ys) part"
  by (induction xs) auto

lemma contains_editPrompt: "contains (editPrompt session outline history message) (stringify outline)"
  unfolding editPrompt_def
  by (intro contains_skip contains_self_prefix)

lemma ex_prompt:
  "map pc_user (calls_of (edit_course_outline ex_parse (ex_edit_env ''{}'' False)
       (ex_edit_request (ex_outline ''B'')) (ex_store (ex_outline ''A''))))
   = [editPrompt (ex_session (ex_outline ''A'')) (ex_outline ''B'') [] ''add a module on chlorophyll'']"
  by (simp add: edit_ex_defs edit_course_outline_def find_session_def single_def falsy_str_def falsy_def
      Let_def edit_call_def conversationContext_def split: sum.splits)

lemma contains_Cons_ne: "x \<noteq> c \<Longrightarrow> contains (x # xs) (c # p) = contains xs (c # p)"
  by simp

lemma contains_Cons_eq: "contains (c # xs) (c # p) = (take (length p) xs = p \<or> contains xs (c # p))"
  by simp

lemma contains_Nil_Cons: "contains [] (c # p) = False"
  by simp

lemma ex_not_contains:
  "\<not> contains (editPrompt (ex_session (ex_outline ''A'')) (ex_outline ''B'') [] ''add a module on chlorophyll'')
       (stringify (ex_outline ''A''))"
  by (simp add: editPrompt_def ex_session_def ex_outline_def stringify_def quote_def quote_char_def pad_def nl_def
      contains_Cons_ne contains_Cons_eq contains_Nil_Cons del: contains.simps)

text \<open>
  Claim C2, as the code has it. For an edit-outline invocation on a session of the caller,
  the prompt sent to the model contains the JSON text of the \<^verbatim>\<open>current_outline\<close> of the
  request, and it is the same prompt whatever outline the session has stored: the stored
  outline is not read.
\<close>

theorem edit_prompt_embeds_request_outline:
  assumes "find_session (select_session_error env) sid uid d = Some session"
    and "edit_request_of req sid message outline uid"
  shows "\<exists>prompt. contains prompt (stringify outline)
           \<and> map pc_user (calls_of (edit_course_outline JSON_parse env req d)) = [prompt]
           \<and> (\<forall>stored. map pc_user (calls_of (edit_course_outline JSON_parse env req
                                        (with_stored_outline sid stored d))) = [prompt])"
proof -
  define ctx where "ctx = conversationContext (if select_conversations_error env then None
             else Some (filter (\<lambda>c. cv_session_id c = sid) (course_conversations d)))"
  have 1: "map pc_user (calls_of (edit_course_outline JSON_parse env req (with_stored_outline sid stored d)))
        = [editPrompt session outline ctx message]" for stored
    by (simp add: edit_prompt_sent [OF assms(2,1)] ctx_def)
  have 2: "map pc_user (calls_of (edit_course_outline JSON_parse env req d))
        = [editPrompt session outline ctx message]"
    by (simp add: edit_course_outline_valid [OF assms(2)] assms(1) edit_call_def ctx_def
        split: provider_reply.splits sum.splits)
  show ?thesis
    by (rule exI [of _ "editPrompt session outline ctx message"])
       (simp add: 1 2 contains_editPrompt)
qed

text \<open>A run on the sample data: outline B in the request, outline A stored, and the same prompt
  when outline C is stored instead.\<close>

theorem edit_prompt_embeds_request_outline_witness:
  "find_session (select_session_error (ex_edit_env ''{}'' False)) ''s1'' ''u1'' (ex_store (ex_outline ''A''))
     = Some (ex_session (ex_outline ''A''))
   \<and> edit_request_of (ex_edit_request (ex_outline ''B'')) ''s1'' ''add a module on chlorophyll''
        (ex_outline ''B'') ''u1''
   \<and> (\<exists>prompt. contains prompt (stringify (ex_outline ''B''))
        \<and> map pc_user (calls_of (edit_course_outline ex_parse (ex_edit_env ''{}'' False)
              (ex_edit_request (ex_outline ''B'')) (ex_store (ex_outline ''A'')))) = [prompt]
        \<and> map pc_user (calls_of (edit_course_outline ex_parse (ex_edit_env ''{}'' False)
              (ex_edit_request (ex_outline ''B'')) (ex_store (ex_outline ''C'')))) = [prompt])"
proof -
  have f: "find_session (select_session_error (ex_edit_env ''{}'' False)) ''s1'' ''u1''
      (ex_store (ex_outline ''A'')) = Some (ex_session (ex_outline ''A''))"
    by (simp add: find_session_def single_def ex_edit_env_def ex_store_def ex_session_def)
  have r: "edit_request_of (ex_edit_request (ex_outline ''B'')) ''s1'' ''add a module on chlorophyll''
        (ex_outline ''B'') ''u1''"
    by (simp add: edit_request_of_def ex_edit_request_def ex_outline_def)
  have s: "with_stored_outline ''s1'' (ex_outline ''C'') (ex_store (ex_outline ''A'')) = ex_store (ex_outline ''C'')"
    by (simp add: with_stored_outline_def ex_store_def ex_session_def)
  from edit_prompt_embeds_request_outline [OF f r, of ex_parse] obtain prompt where
    p0: "contains prompt (stringify (ex_outline ''B''))
    \<and> map pc_user (calls_of (edit_course_outline ex_parse (ex_edit_env ''{}'' False)
              (ex_edit_request (ex_outline ''B'')) (ex_store (ex_outline ''A'')))) = [prompt]
    \<and> (\<forall>stored. map pc_user (calls_of (edit_course_outline ex_parse (ex_edit_env ''{}'' False)
              (ex_edit_request (ex_outline ''B''))
              (with_stored_outline ''s1'' stored (ex_store (ex_outline ''A''))))) = [prompt])" ..
  note p = conjunct1 [OF p0] conjunct1 [OF conjunct2 [OF p0]] conjunct2 [OF conjunct2 [OF p0]]
  from p(3) have "map pc_user (calls_of (edit_course_outline ex_parse (ex_edit_env ''{}'' False)
              (ex_edit_request (ex_outline ''B''))
              (with_stored_outline ''s1'' (ex_outline ''C'') (ex_store (ex_outline ''A''))))) = [prompt]"
    by (rule spec)
  then have h: "map pc_user (calls_of (edit_course_outline ex_parse (ex_edit_env ''{}'' False)
              (ex_edit_request (ex_outline ''B'')) (ex_store (ex_outline ''C'')))) = [prompt]"
    by (simp only: s)
  show ?thesis
    by (intro conjI exI [of _ prompt]) (rule f r p(1) p(2) h)+
qed

text \<open>Claim C2 as stated fails: with outline A stored and outline B in the request, the
  prompt is built from B and the JSON text of A does not occur in it.\<close>

theorem edit_prompt_without_stored_outline:
  "map pc_user (calls_of (edit_course_outline ex_parse (ex_edit_env ''{}'' False)
       (ex_edit_request (ex_outline ''B'')) (ex_store (ex_outline ''A''))))
     = [editPrompt (ex_session (ex_outline ''A'')) (ex_outline ''B'') [] ''add a module on chlorophyll'']
   \<and> \<not> contains (editPrompt (ex_session (ex_outline ''A'')) (ex_outline ''B'') []
                    ''add a module on chlorophyll'')
         (stringify (ex_outline ''A''))"
  using ex_prompt ex_not_contains by simp

lemma edit_success:
  assumes r: "edit_request_of req sid message outline uid"
    and ok: "status (response_of (edit_course_outline JSON_parse env req d)) = 200"
  shows "\<exists>updated. response_of (edit_course_outline JSON_parse env req d) = Response 200 (Success updated)
        \<and> db_of (edit_course_outline JSON_parse env req d) = save_edit env sid message updated d"
  using ok unfolding edit_course_outline_valid [OF r]
  by (auto split: option.splits provider_reply.splits sum.splits)

text \<open>
  Claim C6, as the code has it. An edit-outline call that is answered 200 and whose two
  writes are applied appends exactly two conversation rows for the session, the user's
  message and then the assistant's, so the conversation of the session grows by two, and
  puts the new outline in place of the stored one in every session row of that id.
\<close>

theorem edit_appends_two_and_replaces_outline:
  assumes "edit_request_of req sid message outline uid"
    and "status (response_of (edit_course_outline JSON_parse env req d)) = 200"
    and "\<not> insert_conversations_error env" and "\<not> update_session_error env"
  shows "\<exists>updated.
      body (response_of (edit_course_outline JSON_parse env req d)) = Success updated
    \<and> course_conversations (db_of (edit_course_outline JSON_parse env req d))
        = course_conversations d @
          [\<lparr>cv_session_id = sid, cv_message_type = ''user'', cv_content = message\<rparr>,
           \<lparr>cv_session_id = sid, cv_message_type = ''assistant'',
            cv_content = ''I've updated your course outline based on your feedback. Here are the key changes I made:''
              @ nl @ nl @ stringify updated\<rparr>]
    \<and> length (filter (\<lambda>c. cv_session_id c = sid)
          (course_conversations (db_of (edit_course_outline JSON_parse env req d))))
        = length (filter (\<lambda>c. cv_session_id c = sid) (course_conversations d)) + 2
    \<and> course_generation_sessions (db_of (edit_course_outline JSON_parse env req d))
        = map (\<lambda>s. if s_id s = sid
                    then s\<lparr>s_current_outline := updated, s_updated_at := Some (now_session env)\<rparr>
                    else s)
            (course_generation_sessions d)"
proof -
  from edit_success [OF assms(1,2)] obtain updated where
    u: "response_of (edit_course_outline JSON_parse env req d) = Response 200 (Success updated)"
    "db_of (edit_course_outline JSON_parse env req d) = save_edit env sid message updated d"
    by blast
  show ?thesis
    by (rule exI [of _ updated]) (simp add: u save_edit_def assms(3,4))
qed

text \<open>A run on the sample data with both writes applied: two conversation rows, and the
  parsed outline in place of the stored one.\<close>

theorem edit_appends_two_and_replaces_outline_witness:
  "edit_request_of (ex_edit_request (ex_outline ''B'')) ''s1'' ''add a module on chlorophyll''
        (ex_outline ''B'') ''u1''
   \<and> status (response_of (edit_course_outline ex_parse (ex_edit_env ''{}'' False)
        (ex_edit_request (ex_outline ''B'')) (ex_store (ex_outline ''A'')))) = 200
   \<and> \<not> insert_conversations_error (ex_edit_env ''{}'' False)
   \<and> \<not> update_session_error (ex_edit_env ''{}'' False)
   \<and> length (course_conversations (db_of (edit_course_outline ex_parse (ex_edit_env ''{}'' False)
        (ex_edit_request (ex_outline ''B'')) (ex_store (ex_outline ''A''))))) = 2
   \<and> map s_current_outline (course_generation_sessions (db_of (edit_course_outline ex_parse
        (ex_edit_env ''{}'' False) (ex_edit_request (ex_outline ''B'')) (ex_store (ex_outline ''A'')))))
       = [JObj []]"
proof -
  let ?out = "edit_course_outline ex_parse (ex_edit_env ''{}'' False)
        (ex_edit_request (ex_outline ''B'')) (ex_store (ex_outline ''A''))"
  have r: "edit_request_of (ex_edit_request (ex_outline ''B'')) ''s1'' ''add a module on chlorophyll''
        (ex_outline ''B'') ''u1''"
    by (simp add: edit_request_of_def ex_edit_request_def ex_outline_def)
  have resp: "response_of ?out = Response 200 (Success (JObj []))"
    unfolding edit_course_outline_valid [OF r]
    by (simp add: find_session_def single_def parse_ai_response_def edit_ex_defs)
  then have ok: "status (response_of ?out) = 200" by simp
  have e1: "\<not> insert_conversations_error (ex_edit_env ''{}'' False)"
    and e2: "\<not> update_session_error (ex_edit_env ''{}'' False)"
    by (simp_all add: ex_edit_env_def)
  from edit_appends_two_and_replaces_outline [OF r ok e1 e2] obtain updated where
    u0: "body (response_of ?out) = Success updated
    \<and> course_conversations (db_of ?out)
        = course_conversations (ex_store (ex_outline ''A'')) @
          [\<lparr>cv_session_id = ''s1'', cv_message_type = ''user'', cv_content = ''add a module on chlorophyll''\<rparr>,
           \<lparr>cv_session_id = ''s1'', cv_message_type = ''assistant'',
            cv_content = ''I've updated your course outline based on your feedback. Here are the key changes I made:''
              @ nl @ nl @ stringify updated\<rparr>]
    \<and> length (filter (\<lambda>c. cv_session_id c = ''s1'') (course_conversations (db_of ?out)))
        = length (filter (\<lambda>c. cv_session_id c = ''s1'') (course_conversations (ex_store (ex_outline ''A'')))) + 2
    \<and> course_generation_sessions (db_of ?out)
        = map (\<lambda>s. if s_id s = ''s1''
                    then s\<lparr>s_current_outline := updated,
                           s_updated_at := Some (now_session (ex_edit_env ''{}'' False))\<rparr>
                    else s)
            (course_generation_sessions (ex_store (ex_outline ''A'')))" ..
  note u = conjunct1 [OF u0] and c = conjunct1 [OF conjunct2 [OF u0]]
    and s = conjunct2 [OF conjunct2 [OF conjunct2 [OF u0]]]
  from u resp have "updated = JObj []" by simp
  with c s have l: "length (course_conversations (db_of ?out)) = 2"
    and m: "map s_current_outline (course_generation_sessions (db_of ?out)) = [JObj []]"
    by (simp_all add: ex_store_def ex_session_def)
  show ?thesis
    by (intro conjI) (rule r ok e1 e2 l m)+
qed

text \<open>Claim C6 as stated fails: when the two writes fail the call is still answered
  success, no conversation row is added and the stored outline stays.\<close>

theorem edit_success_without_rows:
  "response_of (edit_course_outline ex_parse (ex_edit_env ''{}'' True) (ex_edit_request (ex_outline ''B''))
       (ex_store (ex_outline ''A''))) = Response 200 (Success (JObj []))
   \<and> course_conversations (db_of (edit_course_outline ex_parse (ex_edit_env ''{}'' True)
       (ex_edit_request (ex_outline ''B'')) (ex_store (ex_outline ''A'')))) = []
   \<and> map s_current_outline (course_generation_sessions (db_of (edit_course_outline ex_parse
       (ex_edit_env ''{}'' True) (ex_edit_request (ex_outline ''B'')) (ex_store (ex_outline ''A'')))))
       = [ex_outline ''A'']"
  by (simp add: edit_course_outline_valid [of _ "''s1''" "''add a module on chlorophyll''" "ex_outline ''B''" "''u1''"]
      edit_request_of_def find_session_def single_def parse_ai_response_def save_edit_def edit_ex_defs)

section \<open>Properties of generate-final-course\<close>

lemmas final_ex_defs = ex_outline_def ex_session_def ex_store_def ex_final_env_def ex_final_request_def

lemma generate_final_course_valid:
  assumes "final_request_of req sid outline uid"
  shows "generate_final_course env req d =
     (case find_session (final_select_session_error env) sid uid d of
        None \<Rightarrow> (Response 404 (Error ''Session not found or unauthorized''), d, [])
      | Some session \<Rightarrow>
          (case final_provider env of
             Rejects msg \<Rightarrow> (Response 500 (Error msg), d, [final_call (finalPrompt session outline)])
           | NotOk statusText \<Rightarrow> (Response 500 (Error (''OpenRouter API error: '' @ statusText)), d,
               [final_call (finalPrompt session outline)])
           | Completion courseContent \<Rightarrow>
               (case persist_course env session sid uid outline courseContent d of
                  Inl msg \<Rightarrow> (Response 500 (Error msg), d, [final_call (finalPrompt session outline)])
                | Inr (course, d') \<Rightarrow>
                    (Response 200
                       (Success \<lparr>cr_id = c_id course, cr_title = c_title course,
                                 cr_description = c_description course,
                                 cr_content = courseContent,
                                 cr_modules = or_else (get_prop outline ''modules'') (JArr [])\<rparr>),
                     d', [final_call (finalPrompt session outline)]))))"
  using assms
  by (simp add: generate_final_course_def final_request_of_def falsy_str_def falsy_def Let_def
      split: option.splits provider_reply.splits sum.splits)

lemma course_values_flags:
  "course_values (env\<lparr>insert_modules_error := a, insert_progress_error := b,
       final_update_session_error := c\<rparr>) session sid uid outline
     = course_values env session sid uid outline"
  by (simp add: course_values_def split: sum.splits)

lemma persist_course_flags:
  "map_sum id fst (persist_course (env\<lparr>insert_modules_error := a, insert_progress_error := b,
       final_update_session_error := c\<rparr>) session sid uid outline content d)
     = map_sum id fst (persist_course env session sid uid outline content d)"
  by (simp add: persist_course_def course_values_flags split: sum.splits option.splits)

lemma final_response_by_course:
  "response_of (generate_final_course env req d) =
     (if http_method req = ''OPTIONS'' then Response 200 Ok_text
      else if falsy_str (final_session_id (payload req)) \<or> falsy (approved_outline (payload req))
              \<or> falsy_str (final_clerk_user_id (payload req))
      then Response 400 (Error ''Missing required fields'')
      else case (final_session_id (payload req), approved_outline (payload req), final_clerk_user_id (payload req)) of
        (Some sid, Some outline, Some uid) \<Rightarrow>
          (case find_session (final_select_session_error env) sid uid d of
             None \<Rightarrow> Response 404 (Error ''Session not found or unauthorized'')
           | Some session \<Rightarrow>
               (case final_provider env of
                  Rejects msg \<Rightarrow> Response 500 (Error msg)
                | NotOk statusText \<Rightarrow> Response 500 (Error (''OpenRouter API error: '' @ statusText))
                | Completion courseContent \<Rightarrow>
                    (case map_sum id fst (persist_course env session sid uid outline courseContent d) of
                       Inl msg \<Rightarrow> Response 500 (Error msg)
                     | Inr course \<Rightarrow>
                         Response 200
                           (Success \<lparr>cr_id = c_id course, cr_title = c_title course,
                                 cr_description = c_description course,
                                 cr_content = courseContent,
                                 cr_modules = or_else (get_prop outline ''modules'') (JArr [])\<rparr>))))
      | _ \<Rightarrow> Response 400 (Error ''Missing required fields''))"
  by (simp add: generate_final_course_def Let_def
      split: option.splits provider_reply.splits sum.splits prod.splits)

lemma final_response_flags:
  "response_of (generate_final_course (env\<lparr>insert_modules_error := a, insert_progress_error := b,
       final_update_session_error := c\<rparr>) req d)
     = response_of (generate_final_course env req d)"
  unfolding final_response_by_course persist_course_flags
  by (simp split: option.splits)

lemma edit_response_flags:
  "response_of (edit_course_outline JSON_parse (env\<lparr>insert_conversations_error := a,
       update_session_error := b\<rparr>) req d)
     = response_of (edit_course_outline JSON_parse env req d)"
  by (simp add: edit_course_outline_def Let_def
      split: option.splits provider_reply.splits sum.splits prod.splits)

lemma final_course_insert_failure:
  assumes r: "final_request_of req sid outline uid"
    and s: "find_session (final_select_session_error env) sid uid d = Some session"
    and p: "final_provider env = Completion content"
    and e: "insert_course_error env = Some msg"
  shows "status (response_of (generate_final_course env req d)) = 500
       \<and> db_of (generate_final_course env req d) = d"
  unfolding generate_final_course_valid [OF r]
  by (simp add: s p e persist_course_def split: sum.splits)

lemma ex_final_request_of:
  "final_request_of ex_final_request ''s1'' (ex_outline ''Plants'') ''u1''"
  by (simp add: final_request_of_def ex_final_request_def ex_outline_def)

lemma ex_final_session:
  "find_session (final_select_session_error (ex_final_env e w)) ''s1'' ''u1'' (ex_store (ex_outline ''A''))
     = Some (ex_session (ex_outline ''A''))"
  by (simp add: find_session_def single_def ex_final_env_def ex_store_def ex_session_def)

lemmas persist_defs = persist_course_def course_values_def module_titles_def modules_length_def
  insert_modules_def insert_initial_progress_def complete_session_def module_rows_def or_else_def
  enumerate_eq_zip

lemma ex_final_run:
  "status (response_of (generate_final_course (ex_final_env None w) ex_final_request (ex_store (ex_outline ''A'')))) = 200
   \<and> length (courses (db_of (generate_final_course (ex_final_env None w) ex_final_request (ex_store (ex_outline ''A''))))) = 1
   \<and> map cm_order_index (course_modules (db_of (generate_final_course (ex_final_env None w) ex_final_request
        (ex_store (ex_outline ''A''))))) = (if w then [] else [1, 2])
   \<and> map up_progress_percentage (user_progress (db_of (generate_final_course (ex_final_env None w) ex_final_request
        (ex_store (ex_outline ''A''))))) = (if w then [] else [0])
   \<and> map s_status (course_generation_sessions (db_of (generate_final_course (ex_final_env None w) ex_final_request
        (ex_store (ex_outline ''A''))))) = (if w then [''outline_review''] else [''completed''])"
  unfolding generate_final_course_valid [OF ex_final_request_of] ex_final_session
  by (simp add: persist_defs ex_final_env_def ex_outline_def ex_store_def ex_session_def upt_rec)

lemma module_rows_props:
  "length (module_rows cid content ms) = length ms"
  "map cm_order_index (module_rows cid content ms) = [1..<Suc (length ms)]"
  "map cm_title (module_rows cid content ms) = map (\<lambda>m. get_prop m ''title'') ms"
  "\<forall>r \<in> set (module_rows cid content ms). cm_course_id r = cid"
proof -
  show "length (module_rows cid content ms) = length ms"
    by (simp add: module_rows_def)
  have "map cm_order_index (module_rows cid content ms) = map (\<lambda>x. Suc (fst x)) (enumerate 0 ms)"
    by (simp add: module_rows_def case_prod_beta comp_def)
  also have "\<dots> = map (Suc \<circ> fst) (enumerate 0 ms)"
    by (simp add: comp_def)
  also have "\<dots> = map Suc (map fst (enumerate 0 ms))"
    by (rule map_map [symmetric])
  also have "\<dots> = map Suc [0..<0 + length ms]"
    by (simp only: map_fst_enumerate)
  also have "\<dots> = [1..<Suc (length ms)]"
    by (simp add: map_Suc_upt)
  finally show "map cm_order_index (module_rows cid content ms) = [1..<Suc (length ms)]" .
  have "map cm_title (module_rows cid content ms) = map (\<lambda>x. get_prop (snd x) ''title'') (enumerate 0 ms)"
    by (simp add: module_rows_def case_prod_beta comp_def)
  also have "\<dots> = map ((\<lambda>m. get_prop m ''title'') \<circ> snd) (enumerate 0 ms)"
    by (simp add: comp_def)
  also have "\<dots> = map (\<lambda>m. get_prop m ''title'') (map snd (enumerate 0 ms))"
    by (rule map_map [symmetric])
  also have "\<dots> = map (\<lambda>m. get_prop m ''title'') ms"
    by (simp only: map_snd_enumerate)
  finally show "map cm_title (module_rows cid content ms) = map (\<lambda>m. get_prop m ''title'') ms" .
  show "\<forall>r \<in> set (module_rows cid content ms). cm_course_id r = cid"
    by (auto simp: module_rows_def)
qed

lemma final_success:
  assumes r: "final_request_of req sid outline uid"
    and ok: "status (response_of (generate_final_course env req d)) = 200"
  shows "\<exists>session content course.
      final_provider env = Completion content
    \<and> course_values env session sid uid outline = Inr course
    \<and> db_of (generate_final_course env req d)
        = complete_session env sid (insert_initial_progress env uid
            (insert_modules env content outline (d\<lparr>courses := courses d @ [course]\<rparr>)))"
  using ok unfolding generate_final_course_valid [OF r]
  by (auto simp: persist_course_def split: option.splits provider_reply.splits sum.splits)

text \<open>
  Claim C1, as the code has it. In generate-final-course a failed insert of the course,
  after the model call succeeded, is answered 500 and nothing is written. The outcome of
  the later writes does not reach the response: whether the inserts of the modules and of
  the initial progress and the update of the session fail or not, and in
  edit-course-outline whether the insert of the conversation rows and the update of the
  outline fail or not, the response is the same.
\<close>

theorem response_and_write_failures:
  "(final_request_of req sid outline uid \<longrightarrow>
      find_session (final_select_session_error env) sid uid d = Some session \<longrightarrow>
      final_provider env = Completion content \<longrightarrow>
      insert_course_error env = Some msg \<longrightarrow>
        status (response_of (generate_final_course env req d)) = 500
        \<and> db_of (generate_final_course env req d) = d)
   \<and> response_of (generate_final_course (env\<lparr>insert_modules_error := a, insert_progress_error := b,
          final_update_session_error := c\<rparr>) req d)
       = response_of (generate_final_course env req d)
   \<and> response_of (edit_course_outline JSON_parse (eenv\<lparr>insert_conversations_error := a',
          update_session_error := b'\<rparr>) ereq ed)
       = response_of (edit_course_outline JSON_parse eenv ereq ed)"
proof (intro conjI impI)
  assume "final_request_of req sid outline uid"
    and "find_session (final_select_session_error env) sid uid d = Some session"
    and "final_provider env = Completion content"
    and "insert_course_error env = Some msg"
  from final_course_insert_failure [OF this]
  show "status (response_of (generate_final_course env req d)) = 500"
    and "db_of (generate_final_course env req d) = d"
    by simp_all
next
  show "response_of (generate_final_course (env\<lparr>insert_modules_error := a, insert_progress_error := b,
          final_update_session_error := c\<rparr>) req d)
       = response_of (generate_final_course env req d)"
    by (rule final_response_flags)
next
  show "response_of (edit_course_outline JSON_parse (eenv\<lparr>insert_conversations_error := a',
          update_session_error := b'\<rparr>) ereq ed)
       = response_of (edit_course_outline JSON_parse eenv ereq ed)"
    by (rule edit_response_flags)
qed

text \<open>A run on the sample data in which the insert of the course fails: the hypotheses hold and
  the answer is 500 with the store unchanged.\<close>

theorem response_and_write_failures_witness:
  "final_request_of ex_final_request ''s1'' (ex_outline ''Plants'') ''u1''
   \<and> find_session (final_select_session_error (ex_final_env (Some ''timeout'') False)) ''s1'' ''u1''
        (ex_store (ex_outline ''A'')) = Some (ex_session (ex_outline ''A''))
   \<and> final_provider (ex_final_env (Some ''timeout'') False) = Completion ''Lesson text''
   \<and> insert_course_error (ex_final_env (Some ''timeout'') False) = Some ''timeout''
   \<and> status (response_of (generate_final_course (ex_final_env (Some ''timeout'') False) ex_final_request
        (ex_store (ex_outline ''A'')))) = 500
   \<and> db_of (generate_final_course (ex_final_env (Some ''timeout'') False) ex_final_request
        (ex_store (ex_outline ''A''))) = ex_store (ex_outline ''A'')"
proof -
  have p: "final_provider (ex_final_env (Some ''timeout'') False) = Completion ''Lesson text''"
    and e: "insert_course_error (ex_final_env (Some ''timeout'') False) = Some ''timeout''"
    by (simp_all add: ex_final_env_def)
  note t = response_and_write_failures [of ex_final_request "''s1''" "ex_outline ''Plants''" "''u1''"
      "ex_final_env (Some ''timeout'') False" "ex_store (ex_outline ''A'')" "ex_session (ex_outline ''A'')"
      "''Lesson text''" "''timeout''"]
  from t ex_final_request_of ex_final_session p e
  have r: "status (response_of (generate_final_course (ex_final_env (Some ''timeout'') False) ex_final_request
        (ex_store (ex_outline ''A'')))) = 500
   \<and> db_of (generate_final_course (ex_final_env (Some ''timeout'') False) ex_final_request
        (ex_store (ex_outline ''A''))) = ex_store (ex_outline ''A'')"
    by presburger
  show ?thesis
    by (intro conjI) (rule ex_final_request_of ex_final_session p e conjunct1 [OF r] conjunct2 [OF r])+
qed

text \<open>Claim C1 as stated fails: with every write after the course insert failing,
  generate-final-course answers 200 with no module and no progress row written, and with
  both of its writes failing edit-course-outline answers 200 and leaves the store as it was.\<close>

theorem partial_success_reported_as_success:
  "status (response_of (generate_final_course (ex_final_env None True) ex_final_request
      (ex_store (ex_outline ''A'')))) = 200
   \<and> course_modules (db_of (generate_final_course (ex_final_env None True) ex_final_request
      (ex_store (ex_outline ''A'')))) = []
   \<and> user_progress (db_of (generate_final_course (ex_final_env None True) ex_final_request
      (ex_store (ex_outline ''A'')))) = []
   \<and> status (response_of (edit_course_outline ex_parse (ex_edit_env ''{}'' True)
      (ex_edit_request (ex_outline ''B'')) (ex_store (ex_outline ''A'')))) = 200
   \<and> db_of (edit_course_outline ex_parse (ex_edit_env ''{}'' True)
      (ex_edit_request (ex_outline ''B'')) (ex_store (ex_outline ''A''))) = ex_store (ex_outline ''A'')"
  using ex_final_run [of True]
  by (simp add: edit_course_outline_valid [of _ "''s1''" "''add a module on chlorophyll''" "ex_outline ''B''" "''u1''"]
      edit_request_of_def find_session_def single_def parse_ai_response_def save_edit_def edit_ex_defs)

text \<open>
  Claim C7, as the code has it. A generate-final-course call that is answered 200 for an
  approved outline with N modules, and whose writes after the course insert are applied,
  adds exactly one course row, with total_modules N, exactly N module rows of that course
  with order_index 1..N and the titles of the outline's modules in their order, exactly one
  progress row of (user, course) at 0, and leaves every session row of that id completed.
\<close>

theorem materialized_rows:
  assumes r: "final_request_of req sid outline uid"
    and ok: "status (response_of (generate_final_course env req d)) = 200"
    and ms: "get_prop outline ''modules'' = Some (JArr ms)"
    and w: "\<not> insert_modules_error env" "\<not> insert_progress_error env" "\<not> final_update_session_error env"
  shows "\<exists>course rows p.
      courses (db_of (generate_final_course env req d)) = courses d @ [course]
    \<and> c_id course = new_course_id env \<and> c_owner course = uid \<and> c_total_modules course = length ms
    \<and> course_modules (db_of (generate_final_course env req d)) = course_modules d @ rows
    \<and> length rows = length ms
    \<and> map cm_order_index rows = [1..<Suc (length ms)]
    \<and> map cm_title rows = map (\<lambda>m. get_prop m ''title'') ms
    \<and> (\<forall>row \<in> set rows. cm_course_id row = new_course_id env)
    \<and> user_progress (db_of (generate_final_course env req d)) = user_progress d @ [p]
    \<and> up_user_id p = uid \<and> up_course_id p = new_course_id env \<and> up_progress_percentage p = 0
    \<and> (\<forall>s \<in> set (course_generation_sessions (db_of (generate_final_course env req d))).
          s_id s = sid \<longrightarrow> s_status s = ''completed'')"
proof -
  from final_success [OF r ok] obtain session content course where
    cv: "course_values env session sid uid outline = Inr course"
    and db: "db_of (generate_final_course env req d)
        = complete_session env sid (insert_initial_progress env uid
            (insert_modules env content outline (d\<lparr>courses := courses d @ [course]\<rparr>)))"
    by blast
  define rows where "rows = module_rows (new_course_id env) content ms"
  define p where "p = \<lparr>up_user_id = uid, up_course_id = new_course_id env, up_progress_percentage = 0,
               up_completed_modules = [], up_time_spent = Some 0,
               up_last_accessed = final_default_last_accessed env, up_notes = []\<rparr>"
  from cv have c: "c_id course = new_course_id env" "c_owner course = uid"
    "c_total_modules course = length ms"
    by (auto simp: course_values_def modules_length_def ms split: sum.splits)
  have 1: "courses (db_of (generate_final_course env req d)) = courses d @ [course]"
    by (simp add: db complete_session_def insert_initial_progress_def insert_modules_def ms w)
  have 2: "course_modules (db_of (generate_final_course env req d)) = course_modules d @ rows"
    by (simp add: db complete_session_def insert_initial_progress_def insert_modules_def ms w rows_def)
  have 3: "user_progress (db_of (generate_final_course env req d)) = user_progress d @ [p]"
    by (simp add: db complete_session_def insert_initial_progress_def insert_modules_def ms w p_def)
  have 4: "\<forall>s \<in> set (course_generation_sessions (db_of (generate_final_course env req d))).
          s_id s = sid \<longrightarrow> s_status s = ''completed''"
  proof (intro ballI impI)
    fix s
    define f where "f = (\<lambda>s0::session_row. if s_id s0 = sid
        then s0\<lparr>s_status := ''completed'', s_updated_at := Some (now_session_completed env)\<rparr> else s0)"
    have "course_generation_sessions (db_of (generate_final_course env req d))
        = map f (course_generation_sessions d)"
      by (simp add: db complete_session_def insert_initial_progress_def insert_modules_def ms w f_def)
    moreover assume "s \<in> set (course_generation_sessions (db_of (generate_final_course env req d)))"
    ultimately obtain s0 where s: "s = f s0"
      by (auto simp only: set_map image_iff)
    assume "s_id s = sid"
    then show "s_status s = ''completed''"
      unfolding s f_def by (cases "s_id s0 = sid") simp_all
  qed
  have 5: "up_user_id p = uid" "up_course_id p = new_course_id env" "up_progress_percentage p = 0"
    by (simp_all add: p_def)
  note m = module_rows_props [of "new_course_id env" content ms, folded rows_def]
  show ?thesis
    by (intro exI [of _ course] exI [of _ rows] exI [of _ p] conjI)
       (rule 1 2 3 4 5 c m)+
qed

text \<open>A run on the sample data with every write applied, for an outline of two modules.\<close>

theorem materialized_rows_witness:
  "final_request_of ex_final_request ''s1'' (ex_outline ''Plants'') ''u1''
   \<and> status (response_of (generate_final_course (ex_final_env None False) ex_final_request
        (ex_store (ex_outline ''A'')))) = 200
   \<and> get_prop (ex_outline ''Plants'') ''modules''
        = Some (JArr [JObj [(''title'', JStr ''Light'')], JObj [(''title'', JStr ''Chlorophyll'')]])
   \<and> \<not> insert_modules_error (ex_final_env None False)
   \<and> \<not> insert_progress_error (ex_final_env None False)
   \<and> \<not> final_update_session_error (ex_final_env None False)
   \<and> map c_total_modules (courses (db_of (generate_final_course (ex_final_env None False)
        ex_final_request (ex_store (ex_outline ''A''))))) = [2]
   \<and> map cm_order_index (course_modules (db_of (generate_final_course (ex_final_env None False)
        ex_final_request (ex_store (ex_outline ''A''))))) = [1, 2]
   \<and> map cm_title (course_modules (db_of (generate_final_course (ex_final_env None False)
        ex_final_request (ex_store (ex_outline ''A''))))) = [Some (JStr ''Light''), Some (JStr ''Chlorophyll'')]
   \<and> map up_progress_percentage (user_progress (db_of (generate_final_course (ex_final_env None False)
        ex_final_request (ex_store (ex_outline ''A''))))) = [0]"
proof -
  let ?out = "generate_final_course (ex_final_env None False) ex_final_request (ex_store (ex_outline ''A''))"
  let ?ms = "[JObj [(''title'', JStr ''Light'')], JObj [(''title'', JStr ''Chlorophyll'')]]"
  have ok: "status (response_of ?out) = 200"
    using ex_final_run [of False] by simp
  have ms: "get_prop (ex_outline ''Plants'') ''modules'' = Some (JArr ?ms)"
    by (simp add: ex_outline_def)
  have w: "\<not> insert_modules_error (ex_final_env None False)"
    "\<not> insert_progress_error (ex_final_env None False)"
    "\<not> final_update_session_error (ex_final_env None False)"
    by (simp_all add: ex_final_env_def)
  from materialized_rows [OF ex_final_request_of ok ms w] obtain course rows p where
    h: "courses (db_of ?out) = courses (ex_store (ex_outline ''A'')) @ [course]"
      "c_total_modules course = length ?ms"
      "course_modules (db_of ?out) = course_modules (ex_store (ex_outline ''A'')) @ rows"
      "map cm_order_index rows = [1..<Suc (length ?ms)]"
      "map cm_title rows = map (\<lambda>m. get_prop m ''title'') ?ms"
      "user_progress (db_of ?out) = user_progress (ex_store (ex_outline ''A'')) @ [p]"
      "up_progress_percentage p = 0"
    by (elim exE conjE)
  have e: "courses (ex_store (ex_outline ''A'')) = []" "course_modules (ex_store (ex_outline ''A'')) = []"
    "user_progress (ex_store (ex_outline ''A'')) = []"
    by (simp_all add: ex_store_def)
  have 1: "map c_total_modules (courses (db_of ?out)) = [2]"
    by (simp add: h(1,2) e)
  have 2: "map cm_order_index (course_modules (db_of ?out)) = [1, 2]"
    by (simp add: h(3,4) e upt_rec)
  have 3: "map cm_title (course_modules (db_of ?out)) = [Some (JStr ''Light''), Some (JStr ''Chlorophyll'')]"
    by (simp add: h(3,5) e)
  have 4: "map up_progress_percentage (user_progress (db_of ?out)) = [0]"
    by (simp add: h(6,7) e)
  show ?thesis
    by (intro conjI) (rule ex_final_request_of ok ms w 1 2 3 4)+
qed

text \<open>Claim C7 as stated fails: a call answered 200 for an outline of two modules whose
  later writes fail leaves no module row, no progress row and the session in review.\<close>

theorem materialize_success_without_modules:
  "final_request_of ex_final_request ''s1'' (ex_outline ''Plants'') ''u1''
   \<and> get_prop (ex_outline ''Plants'') ''modules''
        = Some (JArr [JObj [(''title'', JStr ''Light'')], JObj [(''title'', JStr ''Chlorophyll'')]])
   \<and> status (response_of (generate_final_course (ex_final_env None True) ex_final_request
        (ex_store (ex_outline ''A'')))) = 200
   \<and> map cm_order_index (course_modules (db_of (generate_final_course (ex_final_env None True)
        ex_final_request (ex_store (ex_outline ''A''))))) = []
   \<and> map up_progress_percentage (user_progress (db_of (generate_final_course (ex_final_env None True)
        ex_final_request (ex_store (ex_outline ''A''))))) = []
   \<and> map s_status (course_generation_sessions (db_of (generate_final_course (ex_final_env None True)
        ex_final_request (ex_store (ex_outline ''A''))))) = [''outline_review'']"
  using ex_final_run [of True] ex_final_request_of by (simp add: ex_outline_def)

end
